theory Spec2Isabelle
  imports Main "HOL-Library.Word"
begin

unbundle bit_operations_syntax

section \<open>Machine types and error numbers\<close>

type_synonym u8 = "8 word"
type_synonym u16 = "16 word"
type_synonym u32 = "32 word"
type_synonym u64 = "64 word"

text \<open>A word is read as signed where the C type is: \<open>sint\<close> and \<open>scast\<close>.\<close>

type_synonym s32 = "32 word"

text \<open>The errno values the driver returns negated (\<open>-EIO\<close>, \<open>-EBUSY\<close>, ...).\<close>

definition EPERM :: int where "EPERM = 1"
definition EIO :: int where "EIO = 5"
definition EBUSY :: int where "EBUSY = 16"
definition EINVAL :: int where "EINVAL = 22"

section \<open>The I2C adapter under the register-array writer\<close>

text \<open>
  \<open>i2c_transfer\<close> and \<open>msleep\<close> belong to the kernel, not to the driver. The adapter is
  modelled by what the driver can observe of it: the sequence of messages and sleeps it
  was asked for (\<open>events\<close>), and the value the next \<open>i2c_transfer\<close> returns, which is an
  arbitrary function \<open>xfer_ret\<close> of the number of transfers attempted so far (\<open>nxfer\<close>).
  A transfer of one message succeeded iff it returned 1.
\<close>

datatype bus_event = I2cTransfer "u8 list" | Msleep nat

record i2c_bus =
  events :: "bus_event list"
  nxfer :: nat
  xfer_ret :: "nat \<Rightarrow> int"

definition i2c_transfer :: "i2c_bus \<Rightarrow> u8 list \<Rightarrow> int \<times> i2c_bus" where
  "i2c_transfer b msg =
     (xfer_ret b (nxfer b),
      b\<lparr>events := events b @ [I2cTransfer msg], nxfer := nxfer b + 1\<rparr>)"

definition msleep :: "i2c_bus \<Rightarrow> nat \<Rightarrow> i2c_bus" where
  "msleep b ms = b\<lparr>events := events b @ [Msleep ms]\<rparr>"

section \<open>Register lists (t4ka3.h)\<close>

text \<open>\<open>enum t4ka3_tok_type\<close>.\<close>

definition T4KA3_8BIT :: u32 where "T4KA3_8BIT = 0x0001"
definition T4KA3_16BIT :: u32 where "T4KA3_16BIT = 0x0002"
definition T4KA3_RMW :: u32 where "T4KA3_RMW = 0x0010"
definition T4KA3_TOK_TERM :: u32 where "T4KA3_TOK_TERM = 0xf000"
definition T4KA3_TOK_DELAY :: u32 where "T4KA3_TOK_DELAY = 0xfe00"
definition T4KA3_TOK_MASK :: u32 where "T4KA3_TOK_MASK = 0xfff0"

text \<open>\<open>struct t4ka3_reg\<close>; the field \<open>type\<close> is called \<open>rtype\<close> here.\<close>

record t4ka3_reg =
  rtype :: u32
  sreg :: u16
  val :: u32

definition T4KA3_MAX_WRITE_BUF_SIZE :: nat where "T4KA3_MAX_WRITE_BUF_SIZE = 30"

text \<open>
  \<open>struct t4ka3_write_buffer\<close>: the array \<open>data\<close> is the memory behind it, cell \<open>i\<close>
  for \<open>data[i]\<close>; the array itself is the cells below \<open>T4KA3_MAX_WRITE_BUF_SIZE\<close>.
\<close>

record t4ka3_write_buffer =
  addr :: u16
  data :: "nat \<Rightarrow> u8"

text \<open>
  \<open>struct t4ka3_write_ctrl\<close>, with two bookkeeping fields that the C structure does not
  have: \<open>oob\<close> is set by a store outside \<open>data[0..29]\<close> and never cleared, \<open>peak\<close> is the
  largest value \<open>index\<close> has been given.
\<close>

record t4ka3_write_ctrl =
  index :: nat
  buffer :: t4ka3_write_buffer
  oob :: bool
  peak :: nat

section \<open>The register-array writer\<close>

text \<open>The host is little-endian (x86), so \<open>cpu_to_be16\<close> swaps the two bytes.\<close>

definition cpu_to_be16 :: "u16 \<Rightarrow> u16" where
  "cpu_to_be16 x = push_bit 8 x OR drop_bit 8 x"

text \<open>The bytes of a \<open>u16\<close> in memory, lowest address first.\<close>

definition u16_bytes :: "u16 \<Rightarrow> u8 list" where
  "u16_bytes x = [ucast x, ucast (drop_bit 8 x)]"

text \<open>\<open>(u8 *)&ctrl->buffer\<close>: the 32 bytes of the structure.\<close>

definition buffer_image :: "t4ka3_write_buffer \<Rightarrow> u8 list" where
  "buffer_image buf = u16_bytes (addr buf) @ map (data buf) [0..<T4KA3_MAX_WRITE_BUF_SIZE]"

definition t4ka3_i2c_write :: "i2c_bus \<Rightarrow> nat \<Rightarrow> u8 list \<Rightarrow> int \<times> i2c_bus" where
  "t4ka3_i2c_write b len dat =
     (case i2c_transfer b (take len dat) of
        (ret, b') \<Rightarrow> (if ret = 1 then 0 else - EIO, b'))"

text \<open>\<open>__t4ka3_flush_reg_array\<close>.\<close>

definition t4ka3_flush_reg_array ::
  "i2c_bus \<Rightarrow> t4ka3_write_ctrl \<Rightarrow> int \<times> i2c_bus \<times> t4ka3_write_ctrl" where
  "t4ka3_flush_reg_array b ctrl =
     (if index ctrl = 0 then (0, b, ctrl)
      else
        let sz = 2 + index ctrl;
            ctrl1 = ctrl\<lparr>buffer := (buffer ctrl)\<lparr>addr := cpu_to_be16 (addr (buffer ctrl))\<rparr>,
                        index := 0\<rparr>
        in case t4ka3_i2c_write b sz (buffer_image (buffer ctrl1)) of
             (ret, b') \<Rightarrow> (ret, b', ctrl1))"

text \<open>A store to \<open>ctrl->buffer.data[i]\<close>.\<close>

definition store_data :: "t4ka3_write_ctrl \<Rightarrow> nat \<Rightarrow> u8 \<Rightarrow> t4ka3_write_ctrl" where
  "store_data ctrl i v =
     (if i < T4KA3_MAX_WRITE_BUF_SIZE
      then ctrl\<lparr>buffer := (buffer ctrl)\<lparr>data := (data (buffer ctrl))(i := v)\<rparr>\<rparr>
      else ctrl\<lparr>oob := True\<rparr>)"

text \<open>\<open>*(u16 *)&ctrl->buffer.data[i] = w\<close>.\<close>

definition store_data16 :: "t4ka3_write_ctrl \<Rightarrow> nat \<Rightarrow> u16 \<Rightarrow> t4ka3_write_ctrl" where
  "store_data16 ctrl i w =
     store_data (store_data ctrl i (u16_bytes w ! 0)) (i + 1) (u16_bytes w ! 1)"

text \<open>The part of \<open>__t4ka3_buf_reg_array\<close> after the \<open>switch\<close>.\<close>

definition t4ka3_buf_advance ::
  "i2c_bus \<Rightarrow> t4ka3_write_ctrl \<Rightarrow> t4ka3_reg \<Rightarrow> nat \<Rightarrow> int \<times> i2c_bus \<times> t4ka3_write_ctrl" where
  "t4ka3_buf_advance b ctrl next sz =
     (let ctrl1 = (if index ctrl = 0
                   then ctrl\<lparr>buffer := (buffer ctrl)\<lparr>addr := sreg next\<rparr>\<rparr> else ctrl);
          ctrl2 = ctrl1\<lparr>index := index ctrl1 + sz,
                        peak := max (peak ctrl1) (index ctrl1 + sz)\<rparr>
      in if index ctrl2 + 2 \<ge> T4KA3_MAX_WRITE_BUF_SIZE
         then t4ka3_flush_reg_array b ctrl2
         else (0, b, ctrl2))"

text \<open>\<open>__t4ka3_buf_reg_array\<close>.\<close>

definition t4ka3_buf_reg_array ::
  "i2c_bus \<Rightarrow> t4ka3_write_ctrl \<Rightarrow> t4ka3_reg \<Rightarrow> int \<times> i2c_bus \<times> t4ka3_write_ctrl" where
  "t4ka3_buf_reg_array b ctrl next =
     (if rtype next = T4KA3_8BIT
      then t4ka3_buf_advance b (store_data ctrl (index ctrl) (ucast (val next))) next 1
      else if rtype next = T4KA3_16BIT
      then t4ka3_buf_advance b
             (store_data16 ctrl (index ctrl) (cpu_to_be16 (ucast (val next)))) next 2
      else (- EINVAL, b, ctrl))"

text \<open>
  \<open>__t4ka3_write_reg_is_consecutive\<close>: the sum is computed in \<open>int\<close>, so it does not
  wrap at 16 bits.
\<close>

definition t4ka3_write_reg_is_consecutive :: "t4ka3_write_ctrl \<Rightarrow> t4ka3_reg \<Rightarrow> bool" where
  "t4ka3_write_reg_is_consecutive ctrl next =
     (if index ctrl = 0 then True
      else unat (addr (buffer ctrl)) + index ctrl = unat (sreg next))"

text \<open>
  The loop of \<open>t4ka3_write_reg_array\<close> over the array \<open>reglist\<close>. The result is
  \<open>Some\<close> of the value returned, or \<open>None\<close> when the loop reads past the end of an array
  that holds no \<open>T4KA3_TOK_TERM\<close> entry.
\<close>

fun t4ka3_write_reg_loop ::
  "i2c_bus \<Rightarrow> t4ka3_write_ctrl \<Rightarrow> t4ka3_reg list \<Rightarrow> int option \<times> i2c_bus \<times> t4ka3_write_ctrl"
  where
  "t4ka3_write_reg_loop b ctrl [] = (None, b, ctrl)"
| "t4ka3_write_reg_loop b ctrl (next # rest) =
     (if rtype next = T4KA3_TOK_TERM
      then (case t4ka3_flush_reg_array b ctrl of (err, b1, ctrl1) \<Rightarrow> (Some err, b1, ctrl1))
      else if rtype next AND T4KA3_TOK_MASK = T4KA3_TOK_DELAY
      then (case t4ka3_flush_reg_array b ctrl of
              (err, b1, ctrl1) \<Rightarrow>
                if err \<noteq> 0 then (Some err, b1, ctrl1)
                else t4ka3_write_reg_loop (msleep b1 (unat (val next))) ctrl1 rest)
      else (case (if \<not> t4ka3_write_reg_is_consecutive ctrl next
                  then t4ka3_flush_reg_array b ctrl else (0, b, ctrl)) of
              (err, b1, ctrl1) \<Rightarrow>
                if err \<noteq> 0 then (Some err, b1, ctrl1)
                else (case t4ka3_buf_reg_array b1 ctrl1 next of
                        (err2, b2, ctrl2) \<Rightarrow>
                          if err2 \<noteq> 0 then (Some err2, b2, ctrl2)
                          else t4ka3_write_reg_loop b2 ctrl2 rest)))"

text \<open>
  \<open>t4ka3_write_reg_array\<close>: \<open>ctrl\<close> is a local variable of which only \<open>index\<close> is
  initialised, so the buffer starts with whatever the stack held (\<open>junk\<close>).
\<close>

definition t4ka3_write_reg_array ::
  "i2c_bus \<Rightarrow> t4ka3_write_buffer \<Rightarrow> t4ka3_reg list
     \<Rightarrow> int option \<times> i2c_bus \<times> t4ka3_write_ctrl" where
  "t4ka3_write_reg_array b junk reglist =
     t4ka3_write_reg_loop b \<lparr>index = 0, buffer = junk, oob = False, peak = 0\<rparr> reglist"

section \<open>Vocabulary for the register-array writer\<close>

text \<open>The loop invariant of \<open>t4ka3_write_reg_array\<close> on the bookkeeping of the buffer.\<close>

definition buf_ok :: "t4ka3_write_ctrl \<Rightarrow> bool" where
  "buf_ok ctrl = (index ctrl \<le> 27 \<and> \<not> oob ctrl \<and> peak ctrl \<le> 29)"

text \<open>
  A write entry is one of type \<open>T4KA3_8BIT\<close> or \<open>T4KA3_16BIT\<close>; it carries one or two value
  bytes, a 16-bit value high byte first.
\<close>

definition is_write :: "t4ka3_reg \<Rightarrow> bool" where
  "is_write e = (rtype e = T4KA3_8BIT \<or> rtype e = T4KA3_16BIT)"

definition reg_size :: "t4ka3_reg \<Rightarrow> nat" where
  "reg_size e = (if rtype e = T4KA3_8BIT then 1 else 2)"

definition reg_bytes :: "t4ka3_reg \<Rightarrow> u8 list" where
  "reg_bytes e = (if rtype e = T4KA3_8BIT then [ucast (val e)]
                  else [ucast (drop_bit 8 (val e)), ucast (val e)])"

definition total_bytes :: "t4ka3_reg list \<Rightarrow> nat" where
  "total_bytes es = sum_list (map reg_size es)"

text \<open>
  The entries occupy consecutive register addresses from \<open>a\<close> on: each entry starts where
  the value bytes of the one before end.
\<close>

fun contiguous_from :: "nat \<Rightarrow> t4ka3_reg list \<Rightarrow> bool" where
  "contiguous_from a [] = True"
| "contiguous_from a (e # es) = (unat (sreg e) = a \<and> contiguous_from (a + reg_size e) es)"

text \<open>
  The message of one burst write: the 16-bit register address, high byte first, then the
  value bytes.
\<close>

definition burst :: "u16 \<Rightarrow> u8 list \<Rightarrow> u8 list" where
  "burst a bytes = [ucast (drop_bit 8 a), ucast a] @ bytes"

text \<open>The value bytes waiting in the buffer.\<close>

definition pending :: "t4ka3_write_ctrl \<Rightarrow> u8 list" where
  "pending ctrl = map (data (buffer ctrl)) [0..<index ctrl]"

text \<open>
  The buffer after \<open>__t4ka3_buf_reg_array\<close> has stored a write entry and advanced
  \<open>index\<close>, before it decides whether to flush.
\<close>

definition stage :: "t4ka3_write_ctrl \<Rightarrow> t4ka3_reg \<Rightarrow> t4ka3_write_ctrl" where
  "stage ctrl e =
     (let c1 = (if rtype e = T4KA3_8BIT then store_data ctrl (index ctrl) (ucast (val e))
                else store_data16 ctrl (index ctrl) (cpu_to_be16 (ucast (val e))));
          c2 = (if index c1 = 0 then c1\<lparr>buffer := (buffer c1)\<lparr>addr := sreg e\<rparr>\<rparr> else c1)
      in c2\<lparr>index := index c2 + reg_size e, peak := max (peak c2) (index c2 + reg_size e)\<rparr>)"

text \<open>
  \<open>through_transfer n evs\<close> is \<open>evs\<close> up to and including its transfer number \<open>n\<close>
  (counted from 0), or all of \<open>evs\<close> when it has no such transfer; \<open>transfers\<close> counts
  the transfers of a trace.
\<close>

fun through_transfer :: "nat \<Rightarrow> bus_event list \<Rightarrow> bus_event list" where
  "through_transfer n [] = []"
| "through_transfer n (Msleep ms # es) = Msleep ms # through_transfer n es"
| "through_transfer n (I2cTransfer m # es) =
     I2cTransfer m # (case n of 0 \<Rightarrow> [] | Suc n' \<Rightarrow> through_transfer n' es)"

fun transfers :: "bus_event list \<Rightarrow> nat" where
  "transfers [] = 0"
| "transfers (Msleep ms # es) = transfers es"
| "transfers (I2cTransfer m # es) = Suc (transfers es)"

text \<open>
  Two adapters that differ in the outcome of transfers only: on \<open>g\<close> every transfer
  succeeds, on \<open>b\<close> the transfers before number \<open>k\<close> succeed and number \<open>k\<close> fails.
\<close>

definition twins :: "nat \<Rightarrow> i2c_bus \<Rightarrow> i2c_bus \<Rightarrow> bool" where
  "twins k g b = ((\<forall>j. xfer_ret g j = 1) \<and> (\<forall>j<k. xfer_ret b j = 1) \<and> xfer_ret b k \<noteq> 1
                  \<and> nxfer g = nxfer b \<and> nxfer b \<le> k)"

text \<open>An adapter after the events \<open>new\<close>, with its transfer count set to \<open>n\<close>.\<close>

definition adv :: "i2c_bus \<Rightarrow> bus_event list \<Rightarrow> nat \<Rightarrow> i2c_bus" where
  "adv b new n = b\<lparr>events := events b @ new, nxfer := n\<rparr>"

text \<open>
  The result \<open>B\<close> on the failing adapter is the result \<open>G\<close> on the fault-free one cut
  right after transfer \<open>k\<close>: the same events up to that transfer and the value \<open>fault\<close>
  returned, or, when \<open>G\<close> never reaches transfer \<open>k\<close>, the same events, value and buffer.
\<close>

definition cut ::
  "'r \<Rightarrow> nat \<Rightarrow> i2c_bus \<Rightarrow> i2c_bus \<Rightarrow> 'r \<times> i2c_bus \<times> t4ka3_write_ctrl
     \<Rightarrow> 'r \<times> i2c_bus \<times> t4ka3_write_ctrl \<Rightarrow> bool" where
  "cut fault k g b G B =
     (\<exists>rg new cg rb cb.
        G = (rg, adv g new (nxfer g + transfers new), cg)
      \<and> B = (rb, adv b (through_transfer (k - nxfer b) new)
                      (min (nxfer g + transfers new) (k + 1)), cb)
      \<and> (if k < nxfer g + transfers new then rb = fault else rb = rg \<and> cb = cg))"

text \<open>Concrete adapters, buffers and register lists.\<close>

definition ok_bus :: i2c_bus where
  "ok_bus = \<lparr>events = [], nxfer = 0, xfer_ret = (\<lambda>_. 1)\<rparr>"

definition zero_buffer :: t4ka3_write_buffer where
  "zero_buffer = \<lparr>addr = 0, data = (\<lambda>_. 0)\<rparr>"

definition reg8 :: "u16 \<Rightarrow> u32 \<Rightarrow> t4ka3_reg" where
  "reg8 a v = \<lparr>rtype = T4KA3_8BIT, sreg = a, val = v\<rparr>"

definition reg16 :: "u16 \<Rightarrow> u32 \<Rightarrow> t4ka3_reg" where
  "reg16 a v = \<lparr>rtype = T4KA3_16BIT, sreg = a, val = v\<rparr>"

definition tok_term :: t4ka3_reg where
  "tok_term = \<lparr>rtype = T4KA3_TOK_TERM, sreg = 0, val = 0\<rparr>"

definition flaky_bus :: "nat \<Rightarrow> i2c_bus" where
  "flaky_bus k = \<lparr>events = [], nxfer = 0, xfer_ret = (\<lambda>j. if j = k then - 121 else 1)\<rparr>"

definition three_bursts :: "t4ka3_reg list" where
  "three_bursts = [reg8 0x0100 0x01, reg8 0x0104 0x01, reg16 0x0105 0x0203, reg8 0x0340 0x09,
                   tok_term]"

section \<open>Kernel services under the sensor driver\<close>

text \<open>
  The current driver (the first \<open>atomisp-t4ka3.c\<close> of the file) reaches the hardware
  through the kernel only: runtime power management, the CCI register helpers and the
  control framework. None of these is code of the driver. Each such call is recorded,
  with its arguments, in \<open>calls\<close>; the value it returns is \<open>ret_of\<close> at the number of
  calls made before it, an arbitrary function, so that a theorem about every \<open>kernel\<close>
  is a theorem about every behaviour of these services.
\<close>

datatype cci_reg = CCI_REG8 u16 | CCI_REG16 u16

text \<open>The register sequences that \<open>t4ka3_s_stream\<close> hands to \<open>cci_multi_reg_write\<close>.\<close>

datatype reg_sequence =
    T4ka3_init_config | T4ka3_param_hold | T4ka3_param_update
  | T4ka3_streaming | T4ka3_suspend | Res_regs nat

text \<open>The control ids that \<open>t4ka3_s_ctrl\<close> tells apart.\<close>

datatype ctrl_id =
    V4L2_CID_TEST_PATTERN | V4L2_CID_VFLIP | V4L2_CID_HFLIP
  | V4L2_CID_VBLANK | V4L2_CID_EXPOSURE | V4L2_CID_other u32

datatype kcall =
    Pm_runtime_get_sync
  | Pm_runtime_put
  | Pm_runtime_get_if_in_use
  | Cci_write cci_reg u64
  | Cci_update_bits cci_reg u64 u64
  | Cci_multi_reg_write reg_sequence
  | V4l2_ctrl_modify_range ctrl_id int int int int

record kernel =
  calls :: "kcall list"
  ret_of :: "nat \<Rightarrow> int"

definition do_call :: "kernel \<Rightarrow> kcall \<Rightarrow> int \<times> kernel" where
  "do_call k c = (ret_of k (length (calls k)), k\<lparr>calls := calls k @ [c]\<rparr>)"

definition pm_runtime_get_sync :: "kernel \<Rightarrow> int \<times> kernel" where
  "pm_runtime_get_sync k = do_call k Pm_runtime_get_sync"

definition pm_runtime_put :: "kernel \<Rightarrow> int \<times> kernel" where
  "pm_runtime_put k = do_call k Pm_runtime_put"

definition pm_runtime_get_if_in_use :: "kernel \<Rightarrow> int \<times> kernel" where
  "pm_runtime_get_if_in_use k = do_call k Pm_runtime_get_if_in_use"

definition cci_write :: "kernel \<Rightarrow> cci_reg \<Rightarrow> u64 \<Rightarrow> int \<times> kernel" where
  "cci_write k reg v = do_call k (Cci_write reg v)"

definition cci_update_bits :: "kernel \<Rightarrow> cci_reg \<Rightarrow> u64 \<Rightarrow> u64 \<Rightarrow> int \<times> kernel" where
  "cci_update_bits k reg msk v = do_call k (Cci_update_bits reg msk v)"

definition cci_multi_reg_write :: "kernel \<Rightarrow> reg_sequence \<Rightarrow> int \<times> kernel" where
  "cci_multi_reg_write k regs = do_call k (Cci_multi_reg_write regs)"

definition v4l2_ctrl_modify_range ::
  "kernel \<Rightarrow> ctrl_id \<Rightarrow> int \<Rightarrow> int \<Rightarrow> int \<Rightarrow> int \<Rightarrow> int \<times> kernel" where
  "v4l2_ctrl_modify_range k c mn mx step def =
     do_call k (V4l2_ctrl_modify_range c mn mx step def)"

section \<open>The sensor state\<close>

text \<open>
  The four Bayer orders of \<open>t4ka3_hv_flip_bayer_order\<close>; \<open>Mbus_code\<close> is any other media
  bus code a format may hold.
\<close>

datatype mbus_code =
    MEDIA_BUS_FMT_SGRBG10_1X10
  | MEDIA_BUS_FMT_SBGGR10_1X10
  | MEDIA_BUS_FMT_SRGGB10_1X10
  | MEDIA_BUS_FMT_SGBRG10_1X10
  | Mbus_code u32

text \<open>\<open>struct v4l2_mbus_framefmt\<close>, the fields the driver sets per mode and flip.\<close>

record v4l2_mbus_framefmt =
  width :: u32
  height :: u32
  code :: mbus_code

text \<open>\<open>struct v4l2_ctrl\<close>: \<open>id\<close> and \<open>val\<close>, called \<open>cid\<close> and \<open>cval\<close> here.\<close>

record v4l2_ctrl =
  cid :: ctrl_id
  cval :: s32

text \<open>
  \<open>struct t4ka3_ctrls\<close>, the controls that \<open>t4ka3_init_controls\<close> creates with
  \<open>t4ka3_ctrl_ops\<close>: \<open>vflip\<close> and \<open>hflip\<close> are pointers that \<open>t4ka3_set_bayer_order\<close> tests
  against \<open>NULL\<close> (\<open>None\<close>). A control holds in \<open>val\<close> the value it was last set to: the
  framework stores it there before it calls \<open>s_ctrl\<close>.
\<close>

record t4ka3_ctrls =
  vflip :: "v4l2_ctrl option"
  hflip :: "v4l2_ctrl option"
  test_pattern :: v4l2_ctrl
  vblank :: v4l2_ctrl
  exposure :: v4l2_ctrl

text \<open>
  \<open>ctrls.handler\<close>: the controls in the order in which \<open>t4ka3_init_controls\<close> adds them.
  The link frequency control is left out: it is created with no ops and is read-only.
\<close>

definition handler :: "t4ka3_ctrls \<Rightarrow> v4l2_ctrl list" where
  "handler c =
     (case vflip c of None \<Rightarrow> [] | Some v \<Rightarrow> [v])
     @ (case hflip c of None \<Rightarrow> [] | Some h \<Rightarrow> [h])
     @ [test_pattern c, vblank c, exposure c]"

text \<open>\<open>struct t4ka3_device\<close>; \<open>res\<close> is the index of the selected entry of \<open>t4ka3_res\<close>.\<close>

record t4ka3_device =
  format :: v4l2_mbus_framefmt
  ctrls :: t4ka3_ctrls
  res :: nat
  streaming :: int
  coarse_itg :: u16
  gain :: u16
  digital_gain :: u16
  flip :: u16

section \<open>Registers and limits\<close>

definition T4KA3_REG_IMG_ORIENTATION :: cci_reg where
  "T4KA3_REG_IMG_ORIENTATION = CCI_REG8 0x0101"
definition T4KA3_REG_COARSE_INTEGRATION_TIME :: cci_reg where
  "T4KA3_REG_COARSE_INTEGRATION_TIME = CCI_REG16 0x0202"
definition T4KA3_REG_DIGGAIN_GREEN_R :: cci_reg where
  "T4KA3_REG_DIGGAIN_GREEN_R = CCI_REG16 0x020e"
definition T4KA3_REG_DIGGAIN_RED :: cci_reg where
  "T4KA3_REG_DIGGAIN_RED = CCI_REG16 0x0210"
definition T4KA3_REG_DIGGAIN_BLUE :: cci_reg where
  "T4KA3_REG_DIGGAIN_BLUE = CCI_REG16 0x0212"
definition T4KA3_REG_DIGGAIN_GREEN_B :: cci_reg where
  "T4KA3_REG_DIGGAIN_GREEN_B = CCI_REG16 0x0214"
definition T4KA3_REG_GLOBAL_GAIN :: cci_reg where
  "T4KA3_REG_GLOBAL_GAIN = CCI_REG16 0x0234"
definition T4KA3_REG_FRAME_LENGTH_LINES :: cci_reg where
  "T4KA3_REG_FRAME_LENGTH_LINES = CCI_REG16 0x0340"
definition T4KA3_REG_TEST_PATTERN_MODE :: cci_reg where
  "T4KA3_REG_TEST_PATTERN_MODE = CCI_REG8 0x0601"

definition T4KA3_HFLIP_BIT :: u64 where "T4KA3_HFLIP_BIT = 0x1"
definition T4KA3_VFLIP_BIT :: u64 where "T4KA3_VFLIP_BIT = 0x2"

definition T4KA3_LINES_PER_FRAME :: u16 where "T4KA3_LINES_PER_FRAME = 2492"
definition T4KA3_COARSE_INTEGRATION_TIME_MIN :: u16 where
  "T4KA3_COARSE_INTEGRATION_TIME_MIN = 1"
definition T4KA3_COARSE_INTEGRATION_TIME_MARGIN :: u16 where
  "T4KA3_COARSE_INTEGRATION_TIME_MARGIN = 6"
definition T4KA3_MAX_EXPOSURE_SUPPORTED :: u16 where
  "T4KA3_MAX_EXPOSURE_SUPPORTED = 0xffff - T4KA3_COARSE_INTEGRATION_TIME_MARGIN"
definition T4KA3_MAX_GLOBAL_GAIN_SUPPORTED :: u16 where
  "T4KA3_MAX_GLOBAL_GAIN_SUPPORTED = 0x07ff"
definition T4KA3_MIN_GLOBAL_GAIN_SUPPORTED :: u16 where
  "T4KA3_MIN_GLOBAL_GAIN_SUPPORTED = 0x0080"

section \<open>Bayer order\<close>

text \<open>\<open>t4ka3_hv_flip_bayer_order\<close>, indexed by \<open>hv_flip\<close>.\<close>

definition t4ka3_hv_flip_bayer_order :: "mbus_code list" where
  "t4ka3_hv_flip_bayer_order =
     [MEDIA_BUS_FMT_SGRBG10_1X10, MEDIA_BUS_FMT_SBGGR10_1X10,
      MEDIA_BUS_FMT_SRGGB10_1X10, MEDIA_BUS_FMT_SGBRG10_1X10]"

text \<open>\<open>ctrl && ctrl->val\<close>.\<close>

definition ctrl_set :: "v4l2_ctrl option \<Rightarrow> bool" where
  "ctrl_set c = (case c of None \<Rightarrow> False | Some ctrl \<Rightarrow> cval ctrl \<noteq> 0)"

definition t4ka3_set_bayer_order ::
  "t4ka3_device \<Rightarrow> v4l2_mbus_framefmt \<Rightarrow> v4l2_mbus_framefmt" where
  "t4ka3_set_bayer_order sensor fmt =
     (let hv_flip = (if ctrl_set (vflip (ctrls sensor)) then 1 else 0)
                    + (if ctrl_set (hflip (ctrls sensor)) then 2 else (0::nat))
      in fmt\<lparr>code := t4ka3_hv_flip_bayer_order ! hv_flip\<rparr>)"

text \<open>
  The table of the oldest driver in the file, \<open>t4ka3_bayer_order_mapping[vflip][hflip]\<close>,
  over \<open>enum atomisp_bayer_order\<close>.
\<close>

datatype atomisp_bayer_order =
    atomisp_bayer_order_grbg | atomisp_bayer_order_rggb
  | atomisp_bayer_order_bggr | atomisp_bayer_order_gbrg

definition t4ka3_bayer_order_mapping :: "atomisp_bayer_order list list" where
  "t4ka3_bayer_order_mapping =
     [[atomisp_bayer_order_grbg, atomisp_bayer_order_rggb],
      [atomisp_bayer_order_bggr, atomisp_bayer_order_gbrg]]"

section \<open>Flip\<close>

text \<open>
  \<open>t4ka3_t_hflip\<close> and \<open>t4ka3_t_vflip\<close>. \<open>value\<close> is an \<open>int\<close>; the format is recomputed
  after \<open>sensor->flip\<close> is stored.
\<close>

definition t4ka3_t_hflip :: "kernel \<Rightarrow> t4ka3_device \<Rightarrow> int \<Rightarrow> int \<times> kernel \<times> t4ka3_device"
  where
  "t4ka3_t_hflip k sensor v =
     (if streaming sensor \<noteq> 0 then (- EBUSY, k, sensor)
      else
        let bits = (if v \<noteq> 0 then T4KA3_HFLIP_BIT else 0) in
        case cci_update_bits k T4KA3_REG_IMG_ORIENTATION T4KA3_HFLIP_BIT bits of
          (ret, k1) \<Rightarrow>
            if ret \<noteq> 0 then (ret, k1, sensor)
            else
              let sensor1 = sensor\<lparr>flip := ucast bits\<rparr>
              in (0, k1, sensor1\<lparr>format := t4ka3_set_bayer_order sensor1 (format sensor1)\<rparr>))"

definition t4ka3_t_vflip :: "kernel \<Rightarrow> t4ka3_device \<Rightarrow> int \<Rightarrow> int \<times> kernel \<times> t4ka3_device"
  where
  "t4ka3_t_vflip k sensor v =
     (if streaming sensor \<noteq> 0 then (- EBUSY, k, sensor)
      else
        let bits = (if v \<noteq> 0 then T4KA3_VFLIP_BIT else 0) in
        case cci_update_bits k T4KA3_REG_IMG_ORIENTATION T4KA3_VFLIP_BIT bits of
          (ret, k1) \<Rightarrow>
            if ret \<noteq> 0 then (ret, k1, sensor)
            else
              let sensor1 = sensor\<lparr>flip := ucast bits\<rparr>
              in (0, k1, sensor1\<lparr>format := t4ka3_set_bayer_order sensor1 (format sensor1)\<rparr>))"

definition t4ka3_test_pattern :: "kernel \<Rightarrow> s32 \<Rightarrow> int \<times> kernel" where
  "t4ka3_test_pattern k v = cci_write k T4KA3_REG_TEST_PATTERN_MODE (scast v)"

section \<open>Exposure and gain\<close>

text \<open>\<open>clamp_t(u16, val, lo, hi)\<close>.\<close>

definition clamp_t_u16 :: "u16 \<Rightarrow> u16 \<Rightarrow> u16 \<Rightarrow> u16" where
  "clamp_t_u16 v lo hi = min (max v lo) hi"

text \<open>
  The seven register writes of \<open>__t4ka3_set_exposure\<close>, each followed by
  \<open>if (ret) goto out_disable\<close>; \<open>out_disable\<close> only returns \<open>ret\<close>.
\<close>

fun cci_write_all :: "kernel \<Rightarrow> (cci_reg \<times> u64) list \<Rightarrow> int \<times> kernel" where
  "cci_write_all k [] = (0, k)"
| "cci_write_all k ((reg, v) # ws) =
     (case cci_write k reg v of
        (ret, k1) \<Rightarrow> if ret \<noteq> 0 then (ret, k1) else cci_write_all k1 ws)"

definition t4ka3_set_exposure ::
  "kernel \<Rightarrow> t4ka3_device \<Rightarrow> u16 \<Rightarrow> u16 \<Rightarrow> u16 \<Rightarrow> int \<times> kernel \<times> t4ka3_device" where
  "t4ka3_set_exposure k dev coarse_itg0 gain0 digitalgain =
     (let coarse = clamp_t_u16 coarse_itg0 T4KA3_COARSE_INTEGRATION_TIME_MIN
                     T4KA3_MAX_EXPOSURE_SUPPORTED;
          g = clamp_t_u16 gain0 T4KA3_MIN_GLOBAL_GAIN_SUPPORTED
                T4KA3_MAX_GLOBAL_GAIN_SUPPORTED;
          lines_per_frame =
            (if uint coarse > uint T4KA3_LINES_PER_FRAME
                                - uint T4KA3_COARSE_INTEGRATION_TIME_MARGIN
             then coarse + T4KA3_COARSE_INTEGRATION_TIME_MARGIN
             else T4KA3_LINES_PER_FRAME)
      in case cci_write_all k
                [(T4KA3_REG_FRAME_LENGTH_LINES, ucast lines_per_frame),
                 (T4KA3_REG_COARSE_INTEGRATION_TIME, ucast coarse),
                 (T4KA3_REG_GLOBAL_GAIN, ucast g),
                 (T4KA3_REG_DIGGAIN_GREEN_R, ucast digitalgain),
                 (T4KA3_REG_DIGGAIN_RED, ucast digitalgain),
                 (T4KA3_REG_DIGGAIN_BLUE, ucast digitalgain),
                 (T4KA3_REG_DIGGAIN_GREEN_B, ucast digitalgain)] of
           (ret, k1) \<Rightarrow>
             if ret \<noteq> 0 then (ret, k1, dev)
             else (ret, k1, dev\<lparr>gain := g, coarse_itg := coarse,
                                 digital_gain := digitalgain\<rparr>))"

section \<open>Controls\<close>

definition t4ka3_update_exposure_range :: "kernel \<Rightarrow> t4ka3_device \<Rightarrow> int \<times> kernel" where
  "t4ka3_update_exposure_range k sensor =
     (let exp_max = sint (height (format sensor) + cval (vblank (ctrls sensor))
                          - ucast T4KA3_COARSE_INTEGRATION_TIME_MARGIN)
      in v4l2_ctrl_modify_range k V4L2_CID_EXPOSURE 0 exp_max 1 exp_max)"

text \<open>The \<open>switch (ctrl->id)\<close> of \<open>t4ka3_s_ctrl\<close>.\<close>

definition t4ka3_s_ctrl_apply ::
  "kernel \<Rightarrow> t4ka3_device \<Rightarrow> v4l2_ctrl \<Rightarrow> int \<times> kernel \<times> t4ka3_device" where
  "t4ka3_s_ctrl_apply k sensor ctrl =
     (case cid ctrl of
        V4L2_CID_TEST_PATTERN \<Rightarrow>
          (case t4ka3_test_pattern k (cval ctrl) of (ret, k1) \<Rightarrow> (ret, k1, sensor))
      | V4L2_CID_VFLIP \<Rightarrow> t4ka3_t_vflip k sensor (sint (cval ctrl))
      | V4L2_CID_HFLIP \<Rightarrow> t4ka3_t_hflip k sensor (sint (cval ctrl))
      | V4L2_CID_VBLANK \<Rightarrow>
          (case cci_write k T4KA3_REG_FRAME_LENGTH_LINES
                  (ucast (height (format sensor) + cval ctrl)) of
             (ret, k1) \<Rightarrow> (ret, k1, sensor))
      | V4L2_CID_EXPOSURE \<Rightarrow>
          (case cci_write k T4KA3_REG_COARSE_INTEGRATION_TIME (scast (cval ctrl)) of
             (ret, k1) \<Rightarrow> (ret, k1, sensor))
      | V4L2_CID_other _ \<Rightarrow> (- EINVAL, k, sensor))"

text \<open>
  \<open>t4ka3_s_ctrl\<close>. \<open>ctrl\<close> is one of the controls of the sensor's handler; the function
  only reads it, so the model takes it by value.
\<close>

definition t4ka3_s_ctrl ::
  "kernel \<Rightarrow> t4ka3_device \<Rightarrow> v4l2_ctrl \<Rightarrow> int \<times> kernel \<times> t4ka3_device" where
  "t4ka3_s_ctrl k sensor ctrl =
     (case (if cid ctrl = V4L2_CID_VBLANK then t4ka3_update_exposure_range k sensor
            else (0, k)) of
        (ret, k1) \<Rightarrow>
          if ret \<noteq> 0 then (ret, k1, sensor)
          else
            case pm_runtime_get_if_in_use k1 of
              (in_use, k2) \<Rightarrow>
                if in_use = 0
                then (0, k2, sensor\<lparr>format := t4ka3_set_bayer_order sensor (format sensor)\<rparr>)
                else
                  case t4ka3_s_ctrl_apply k2 sensor ctrl of
                    (ret3, k3, sensor3) \<Rightarrow>
                      case pm_runtime_put k3 of (_, k4) \<Rightarrow> (ret3, k4, sensor3))"

text \<open>
  Modelled from the spec: \<open>__v4l2_ctrl_handler_setup\<close> of the kernel's control framework,
  which is not among the sources. Stream-enable is to "replay all pending control values
  (exposure, gain, flip, test-pattern) through the normal control path": each control of
  the handler is handed, with the value it holds, to \<open>t4ka3_s_ctrl\<close>, the \<open>s_ctrl\<close> of
  \<open>t4ka3_ctrl_ops\<close>, in the order of the handler; the first error ends the replay and is
  returned.
\<close>

fun v4l2_ctrl_handler_setup ::
  "kernel \<Rightarrow> t4ka3_device \<Rightarrow> v4l2_ctrl list \<Rightarrow> int \<times> kernel \<times> t4ka3_device" where
  "v4l2_ctrl_handler_setup k sensor [] = (0, k, sensor)"
| "v4l2_ctrl_handler_setup k sensor (ctrl # rest) =
     (case t4ka3_s_ctrl k sensor ctrl of
        (ret, k1, sensor1) \<Rightarrow>
          if ret \<noteq> 0 then (ret, k1, sensor1)
          else v4l2_ctrl_handler_setup k1 sensor1 rest)"

section \<open>Streaming\<close>

text \<open>The label \<open>error_powerdown\<close> of \<open>t4ka3_s_stream\<close>: \<open>ret = pm_runtime_put(...)\<close>.\<close>

definition error_powerdown :: "kernel \<Rightarrow> t4ka3_device \<Rightarrow> int \<times> kernel \<times> t4ka3_device" where
  "error_powerdown k sensor = (case pm_runtime_put k of (ret, k1) \<Rightarrow> (ret, k1, sensor))"

text \<open>
  The branch \<open>if (enable)\<close>. The controls that \<open>__v4l2_ctrl_handler_setup\<close> replays act on
  the sensor before \<open>streaming\<close> is set.
\<close>

definition t4ka3_stream_on :: "kernel \<Rightarrow> t4ka3_device \<Rightarrow> int \<times> kernel \<times> t4ka3_device" where
  "t4ka3_stream_on k sensor =
     (case pm_runtime_get_sync k of (ret, k1) \<Rightarrow>
      if ret \<noteq> 0 then (ret, k1, sensor) else
      case cci_multi_reg_write k1 T4ka3_init_config of (ret, k2) \<Rightarrow>
      if ret \<noteq> 0 then error_powerdown k2 sensor else
      case cci_multi_reg_write k2 T4ka3_param_hold of (ret, k3) \<Rightarrow>
      if ret \<noteq> 0 then error_powerdown k3 sensor else
      case cci_multi_reg_write k3 (Res_regs (res sensor)) of (ret, k4) \<Rightarrow>
      if ret \<noteq> 0 then error_powerdown k4 sensor else
      case v4l2_ctrl_handler_setup k4 sensor (handler (ctrls sensor)) of
        (ret, k5, sensor5) \<Rightarrow>
      if ret \<noteq> 0 then error_powerdown k5 sensor5 else
      case cci_multi_reg_write k5 T4ka3_param_update of (ret, k6) \<Rightarrow>
      if ret \<noteq> 0 then error_powerdown k6 sensor5 else
      case cci_multi_reg_write k6 T4ka3_streaming of (ret, k7) \<Rightarrow>
      if ret \<noteq> 0 then error_powerdown k7 sensor5 else
      (ret, k7, sensor5\<lparr>streaming := 1\<rparr>))"

text \<open>The branch \<open>else\<close>.\<close>

definition t4ka3_stream_off :: "kernel \<Rightarrow> t4ka3_device \<Rightarrow> int \<times> kernel \<times> t4ka3_device" where
  "t4ka3_stream_off k sensor =
     (case cci_multi_reg_write k T4ka3_suspend of (ret, k1) \<Rightarrow>
      if ret \<noteq> 0 then error_powerdown k1 sensor else
      case pm_runtime_put k1 of (ret, k2) \<Rightarrow>
      if ret \<noteq> 0 then (ret, k2, sensor) else
      (ret, k2, sensor\<lparr>streaming := 0\<rparr>))"

text \<open>
  \<open>t4ka3_s_stream\<close>. The local \<open>int ret\<close> has no initialiser: \<open>ret_entry\<close> is what its stack
  slot holds on entry. The mutex and the log messages are left out.
\<close>

definition t4ka3_s_stream ::
  "int \<Rightarrow> kernel \<Rightarrow> t4ka3_device \<Rightarrow> int \<Rightarrow> int \<times> kernel \<times> t4ka3_device" where
  "t4ka3_s_stream ret_entry k sensor enable =
     (if streaming sensor = enable then (ret_entry, k, sensor)
      else if enable \<noteq> 0 then t4ka3_stream_on k sensor
      else t4ka3_stream_off k sensor)"

section \<open>Mode selection of the oldest driver in the file\<close>

text \<open>
  \<open>struct t4ka3_resolution\<close> of \<open>t4ka3.h\<close>, the fields mode selection reads, called
  \<open>res_width\<close>, \<open>res_height\<close> and \<open>res_code\<close> here; \<open>width\<close> and \<open>height\<close> are \<open>int\<close>.
\<close>

record t4ka3_resolution =
  desc :: string
  res_width :: int
  res_height :: int
  skip_frames :: nat
  res_code :: mbus_code

text \<open>\<open>t4ka3_res_preview\<close>, which \<open>t4ka3_res\<close> points to, and \<open>N_RES\<close>.\<close>

definition t4ka3_res_preview :: "t4ka3_resolution list" where
  "t4ka3_res_preview =
     [\<lparr>desc = ''t4ka3_736x496_30fps'', res_width = 736, res_height = 496,
        skip_frames = 2, res_code = MEDIA_BUS_FMT_SGRBG10_1X10\<rparr>,
      \<lparr>desc = ''t4ka3_896x736_30fps'', res_width = 896, res_height = 736,
        skip_frames = 2, res_code = MEDIA_BUS_FMT_SGRBG10_1X10\<rparr>,
      \<lparr>desc = ''t4ka3_1936x1096_30fps'', res_width = 1936, res_height = 1096,
        skip_frames = 2, res_code = MEDIA_BUS_FMT_SGRBG10_1X10\<rparr>,
      \<lparr>desc = ''t4ka3_3280x2464_30fps'', res_width = 3280, res_height = 2464,
        skip_frames = 0, res_code = MEDIA_BUS_FMT_SGRBG10_1X10\<rparr>]"

definition t4ka3_res :: "t4ka3_resolution list" where
  "t4ka3_res = t4ka3_res_preview"

definition N_RES :: int where
  "N_RES = int (length t4ka3_res_preview)"

definition T4KA3_RES_WIDTH_MAX :: u32 where "T4KA3_RES_WIDTH_MAX = 3280"
definition T4KA3_RES_HEIGHT_MAX :: u32 where "T4KA3_RES_HEIGHT_MAX = 2464"

definition LARGEST_ALLOWED_RATIO_MISMATCH :: int where
  "LARGEST_ALLOWED_RATIO_MISMATCH = 600"

definition INT_MAX :: int where "INT_MAX = 2147483647"

text \<open>
  \<open>distance\<close>. The ratios are \<open>unsigned int\<close>: shifts and differences wrap at 32 bits, and
  the kernel's \<open>abs\<close> reads an unsigned argument as signed. The division by \<open>w\<close> comes
  before any check, so \<open>w = 0\<close> is a division by zero: \<open>None\<close>. The function returns an
  \<open>int\<close>, the sum of the ratios read as signed.
\<close>

definition distance :: "t4ka3_resolution \<Rightarrow> u32 \<Rightarrow> u32 \<Rightarrow> int option" where
  "distance r w h =
     (if w = 0 then None
      else
        let w_ratio = (word_of_int (push_bit 13 (res_width r)) :: u32) div w in
        if h = 0 then Some (- EPERM)
        else
          let h_ratio = (word_of_int (push_bit 13 (res_height r)) :: u32) div h in
          if h_ratio = 0 then Some (- EPERM)
          else
            let match = \<bar>sint (push_bit 13 w_ratio div h_ratio - 8192)\<bar> in
            if w_ratio < 8192 \<or> h_ratio < 8192 \<or> match > LARGEST_ALLOWED_RATIO_MISMATCH
            then Some (- EPERM)
            else Some (sint (w_ratio + h_ratio)))"

text \<open>
  The loop of \<open>nearest_resolution_index\<close> from entry \<open>i\<close> on, over the entries left.
\<close>

fun nearest_resolution_loop ::
  "t4ka3_resolution list \<Rightarrow> u32 \<Rightarrow> u32 \<Rightarrow> int \<Rightarrow> int \<Rightarrow> int \<Rightarrow> int option" where
  "nearest_resolution_loop [] w h i idx min_dist = Some idx"
| "nearest_resolution_loop (tmp_res # rest) w h i idx min_dist =
     (case distance tmp_res w h of
        None \<Rightarrow> None
      | Some dist \<Rightarrow>
          if dist = - 1 then nearest_resolution_loop rest w h (i + 1) idx min_dist
          else if dist < min_dist then nearest_resolution_loop rest w h (i + 1) i dist
          else nearest_resolution_loop rest w h (i + 1) idx min_dist)"

definition nearest_resolution_index :: "u32 \<Rightarrow> u32 \<Rightarrow> int option" where
  "nearest_resolution_index w h = nearest_resolution_loop t4ka3_res w h 0 (- 1) INT_MAX"

text \<open>\<open>__t4ka3_try_mbus_fmt\<close>; \<open>None\<close> is the division by zero of \<open>distance\<close>.\<close>

definition t4ka3_try_mbus_fmt :: "v4l2_mbus_framefmt \<Rightarrow> v4l2_mbus_framefmt option" where
  "t4ka3_try_mbus_fmt fmt =
     (if width fmt > T4KA3_RES_WIDTH_MAX \<or> height fmt > T4KA3_RES_HEIGHT_MAX
      then Some (fmt\<lparr>width := T4KA3_RES_WIDTH_MAX, height := T4KA3_RES_HEIGHT_MAX,
                      code := MEDIA_BUS_FMT_SGRBG10_1X10\<rparr>)
      else
        case nearest_resolution_index (width fmt) (height fmt) of
          None \<Rightarrow> None
        | Some idx0 \<Rightarrow>
            let idx = (if idx0 = - 1 then N_RES - 1 else idx0);
                r = t4ka3_res ! nat idx
            in Some (fmt\<lparr>width := word_of_int (res_width r),
                          height := word_of_int (res_height r),
                          code := res_code r\<rparr>))"

section \<open>Vocabulary for the sensor driver\<close>

text \<open>
  A kernel whose calls return the values of a list in order, then 0; a sensor that is not
  streaming.
\<close>

definition kernel_script :: "int list \<Rightarrow> kernel" where
  "kernel_script rets = \<lparr>calls = [], ret_of = (\<lambda>n. if n < length rets then rets ! n else 0)\<rparr>"

definition stopped_sensor :: t4ka3_device where
  "stopped_sensor =
     \<lparr>format = \<lparr>width = 736, height = 496, code = MEDIA_BUS_FMT_SGRBG10_1X10\<rparr>,
      ctrls = \<lparr>vflip = Some \<lparr>cid = V4L2_CID_VFLIP, cval = 0\<rparr>,
               hflip = Some \<lparr>cid = V4L2_CID_HFLIP, cval = 1\<rparr>,
               test_pattern = \<lparr>cid = V4L2_CID_TEST_PATTERN, cval = 2\<rparr>,
               vblank = \<lparr>cid = V4L2_CID_VBLANK, cval = 1996\<rparr>,
               exposure = \<lparr>cid = V4L2_CID_EXPOSURE, cval = 2486\<rparr>\<rparr>,
      res = 0, streaming = 0, coarse_itg = 0, gain = 0, digital_gain = 0, flip = 0\<rparr>"

text \<open>A register write as the kernel records it.\<close>

definition as_call :: "cci_reg \<times> u64 \<Rightarrow> kcall" where
  "as_call w = Cci_write (fst w) (snd w)"

text \<open>
  The register writes of one exposure update in the order of the specification: frame
  length lines (\<open>coarse + 6\<close> when \<open>coarse\<close> exceeds \<open>2492 - 6\<close>, else 2492), coarse
  integration time, global gain, then the four digital gain channels green-R, red, blue,
  green-B; \<open>coarse\<close> and \<open>g\<close> are the clamped values.
\<close>

definition exposure_writes :: "u16 \<Rightarrow> u16 \<Rightarrow> u16 \<Rightarrow> kcall list" where
  "exposure_writes coarse g dg =
     [Cci_write (CCI_REG16 0x0340) (ucast (if 2492 - 6 < unat coarse then coarse + 6 else 2492)),
      Cci_write (CCI_REG16 0x0202) (ucast coarse),
      Cci_write (CCI_REG16 0x0234) (ucast g),
      Cci_write (CCI_REG16 0x020e) (ucast dg),
      Cci_write (CCI_REG16 0x0210) (ucast dg),
      Cci_write (CCI_REG16 0x0212) (ucast dg),
      Cci_write (CCI_REG16 0x0214) (ucast dg)]"

text \<open>
  A kernel call succeeds, as the driver reads its result: \<open>pm_runtime_get_if_in_use\<close> finds
  the device in use, the result of a \<open>pm_runtime_put\<close> after a control is not read, every
  other call returns 0. \<open>all_succeed k tr\<close>: the calls of \<open>tr\<close>, made in this order from
  \<open>k\<close> on, all succeed.
\<close>

definition succeeds :: "kcall \<Rightarrow> int \<Rightarrow> bool" where
  "succeeds c r =
     (case c of Pm_runtime_get_if_in_use \<Rightarrow> r \<noteq> 0 | Pm_runtime_put \<Rightarrow> True | _ \<Rightarrow> r = 0)"

fun all_succeed :: "kernel \<Rightarrow> kcall list \<Rightarrow> bool" where
  "all_succeed k [] = True"
| "all_succeed k (c # tr) =
     (succeeds c (ret_of k (length (calls k))) \<and> all_succeed (k\<lparr>calls := calls k @ [c]\<rparr>) tr)"

text \<open>
  The kernel calls of a stream-enable that succeeds, for mode \<open>r\<close> of height \<open>ht\<close> and the
  control values \<open>vf\<close> (vertical flip), \<open>hf\<close> (horizontal flip), \<open>tp\<close> (test pattern), \<open>vb\<close>
  (vertical blanking) and \<open>ex\<close> (exposure): power up, init configuration, group hold, mode
  registers; then each control in turn, its value written to its register between the
  power check and the release of the power reference (the exposure range is updated
  before the vertical blanking is written); then release of the group hold and start of
  streaming.
\<close>

definition stream_on_calls :: "nat \<Rightarrow> u32 \<Rightarrow> s32 \<Rightarrow> s32 \<Rightarrow> s32 \<Rightarrow> s32 \<Rightarrow> s32 \<Rightarrow> kcall list"
  where
  "stream_on_calls r ht vf hf tp vb ex =
     [Pm_runtime_get_sync,
      Cci_multi_reg_write T4ka3_init_config,
      Cci_multi_reg_write T4ka3_param_hold,
      Cci_multi_reg_write (Res_regs r),
      Pm_runtime_get_if_in_use,
      Cci_update_bits (CCI_REG8 0x0101) 0x2 (if vf = 0 then 0 else 0x2),
      Pm_runtime_put,
      Pm_runtime_get_if_in_use,
      Cci_update_bits (CCI_REG8 0x0101) 0x1 (if hf = 0 then 0 else 0x1),
      Pm_runtime_put,
      Pm_runtime_get_if_in_use,
      Cci_write (CCI_REG8 0x0601) (scast tp),
      Pm_runtime_put,
      V4l2_ctrl_modify_range V4L2_CID_EXPOSURE 0 (sint (ht + vb - 6)) 1 (sint (ht + vb - 6)),
      Pm_runtime_get_if_in_use,
      Cci_write (CCI_REG16 0x0340) (ucast (ht + vb)),
      Pm_runtime_put,
      Pm_runtime_get_if_in_use,
      Cci_write (CCI_REG16 0x0202) (scast ex),
      Pm_runtime_put,
      Cci_multi_reg_write T4ka3_param_update,
      Cci_multi_reg_write T4ka3_streaming]"

section \<open>Vocabulary for mode selection\<close>

text \<open>
  A catalog entry is at least as large as the request in both dimensions; its dimensions
  can be shifted left by 13 within 32 bits; a request of \<open>w\<close> by \<open>h\<close> pixels.
\<close>

definition fits :: "t4ka3_resolution \<Rightarrow> u32 \<Rightarrow> u32 \<Rightarrow> bool" where
  "fits r w h = (uint w \<le> res_width r \<and> uint h \<le> res_height r)"

definition shiftable :: "t4ka3_resolution \<Rightarrow> bool" where
  "shiftable r = (0 \<le> res_width r \<and> res_width r < 2 ^ 19
                  \<and> 0 \<le> res_height r \<and> res_height r < 2 ^ 19)"

definition request :: "nat \<Rightarrow> nat \<Rightarrow> v4l2_mbus_framefmt" where
  "request w h = \<lparr>width = of_nat w, height = of_nat h, code = Mbus_code 0\<rparr>"

section \<open>The register-array writer stays inside its buffer\<close>

lemma flush_fields:
  "t4ka3_flush_reg_array b c = (r, b', c') \<Longrightarrow>
     index c' = 0 \<and> oob c' = oob c \<and> peak c' = peak c"
  by (auto simp: t4ka3_flush_reg_array_def Let_def split: if_splits prod.splits)

lemma flush_buf_ok:
  "t4ka3_flush_reg_array b c = (r, b', c') \<Longrightarrow> \<not> oob c \<Longrightarrow> peak c \<le> 29 \<Longrightarrow> buf_ok c'"
  using flush_fields[of b c r b' c'] by (simp add: buf_ok_def)

lemma advance_buf_ok:
  assumes "t4ka3_buf_advance b c next sz = (r, b', c')"
    and "\<not> oob c" "peak c \<le> 29" "index c + sz \<le> 29"
  shows "buf_ok c'"
proof (cases "index c + sz + 2 \<ge> T4KA3_MAX_WRITE_BUF_SIZE")
  case True
  with assms show ?thesis
    by (auto simp: t4ka3_buf_advance_def Let_def split: if_splits intro!: flush_buf_ok)
next
  case False
  with assms show ?thesis
    by (auto simp: t4ka3_buf_advance_def Let_def buf_ok_def T4KA3_MAX_WRITE_BUF_SIZE_def
        split: if_splits)
qed

lemma store_data_fields:
  "i < 30 \<Longrightarrow> oob (store_data c i v) = oob c \<and> peak (store_data c i v) = peak c
     \<and> index (store_data c i v) = index c"
  by (simp add: store_data_def T4KA3_MAX_WRITE_BUF_SIZE_def)

lemma buf_reg_array_buf_ok:
  assumes "t4ka3_buf_reg_array b c next = (r, b', c')" and "buf_ok c"
  shows "buf_ok c'"
proof -
  from assms(2) have i: "index c < 30" "index c + 1 < 30" and o: "\<not> oob c" "peak c \<le> 29"
    and n: "index c + 1 \<le> 29" "index c + 2 \<le> 29"
    by (simp_all add: buf_ok_def)
  consider (b8) "rtype next = T4KA3_8BIT"
    | (b16) "rtype next \<noteq> T4KA3_8BIT" "rtype next = T4KA3_16BIT"
    | (other) "rtype next \<noteq> T4KA3_8BIT" "rtype next \<noteq> T4KA3_16BIT"
    by blast
  then show ?thesis
  proof cases
    case b8
    with assms(1) have "t4ka3_buf_advance b (store_data c (index c) (ucast (val next))) next 1
        = (r, b', c')"
      by (simp add: t4ka3_buf_reg_array_def)
    then show ?thesis
      by (rule advance_buf_ok) (use store_data_fields[OF i(1), of c] o n in auto)
  next
    case b16
    with assms(1) have "t4ka3_buf_advance b
        (store_data16 c (index c) (cpu_to_be16 (ucast (val next)))) next 2 = (r, b', c')"
      by (simp add: t4ka3_buf_reg_array_def)
    then show ?thesis
      by (rule advance_buf_ok)
        (use store_data_fields[OF i(1), of c] store_data_fields[OF i(2)] o n
          in \<open>auto simp: store_data16_def\<close>)
  next
    case other
    with assms show ?thesis by (simp add: t4ka3_buf_reg_array_def)
  qed
qed

lemma loop_buf_ok:
  "t4ka3_write_reg_loop b c rs = (r, b', c') \<Longrightarrow> buf_ok c \<Longrightarrow> buf_ok c'"
proof (induction b c rs arbitrary: r b' c' rule: t4ka3_write_reg_loop.induct)
  case (1 b ctrl)
  then show ?case by simp
next
  case (2 b ctrl "next" rest)
  have ok: "\<not> oob ctrl" "peak ctrl \<le> 29" using "2.prems"(2) by (simp_all add: buf_ok_def)
  show ?case
  proof (cases "rtype next = T4KA3_TOK_TERM")
    case True
    with "2.prems" ok show ?thesis
      by (auto split: prod.splits dest: flush_buf_ok)
  next
    case nt: False
    show ?thesis
    proof (cases "rtype next AND T4KA3_TOK_MASK = T4KA3_TOK_DELAY")
      case True
      obtain e b1 c1 where f: "t4ka3_flush_reg_array b ctrl = (e, b1, c1)"
        by (cases "t4ka3_flush_reg_array b ctrl") auto
      have c1: "buf_ok c1" using flush_buf_ok[OF f ok] .
      show ?thesis
      proof (cases "e = 0")
        case True
        with nt \<open>rtype next AND T4KA3_TOK_MASK = T4KA3_TOK_DELAY\<close> f "2.prems"(1)
        have "t4ka3_write_reg_loop (msleep b1 (unat (val next))) c1 rest = (r, b', c')"
          by simp
        with "2.IH"(1)[OF nt \<open>rtype next AND T4KA3_TOK_MASK = T4KA3_TOK_DELAY\<close> f[symmetric] refl] True c1
        show ?thesis by simp
      next
        case False
        with nt \<open>rtype next AND T4KA3_TOK_MASK = T4KA3_TOK_DELAY\<close> f "2.prems"(1) c1
        show ?thesis by simp
      qed
    next
      case nd: False
      obtain e b1 c1 where f: "(if \<not> t4ka3_write_reg_is_consecutive ctrl next
                  then t4ka3_flush_reg_array b ctrl else (0, b, ctrl)) = (e, b1, c1)"
        by (cases "(if \<not> t4ka3_write_reg_is_consecutive ctrl next
                  then t4ka3_flush_reg_array b ctrl else (0, b, ctrl))") auto
      have c1: "buf_ok c1" using f flush_buf_ok[OF _ ok] "2.prems"(2)
        by (auto split: if_splits)
      show ?thesis
      proof (cases "e = 0")
        case e0: True
        obtain e2 b2 c2 where g: "t4ka3_buf_reg_array b1 c1 next = (e2, b2, c2)"
          by (cases "t4ka3_buf_reg_array b1 c1 next") auto
        have c2: "buf_ok c2" using buf_reg_array_buf_ok[OF g c1] .
        show ?thesis
        proof (cases "e2 = 0")
          case True
          with nt nd f g e0 "2.prems"(1)
          have "t4ka3_write_reg_loop b2 c2 rest = (r, b', c')" by simp
          with "2.IH"(2)[OF nt nd f[symmetric] refl _ g[symmetric] refl] e0 True c2
          show ?thesis by simp
        next
          case False
          with nt nd f g e0 "2.prems"(1) c2 show ?thesis by simp
        qed
      next
        case False
        with nt nd f "2.prems"(1) c1 show ?thesis by simp
      qed
    qed
  qed
qed

text \<open>
  Claim C9. Whatever the register list and whatever the adapter answers,
  \<open>t4ka3_write_reg_array\<close> never stores outside \<open>data[0..29]\<close> (\<open>oob\<close> stays clear) and
  \<open>index\<close> never exceeds 29 (\<open>peak\<close>); between two entries \<open>index\<close> is at most 27, because
  \<open>__t4ka3_buf_reg_array\<close> flushes as soon as \<open>index + 2 \<ge> 30\<close>. So a one-byte value is
  stored at cell 27 at most and a two-byte value at cells 27 and 28 at most.
\<close>

theorem write_reg_array_within_buffer:
  "\<not> oob (snd (snd (t4ka3_write_reg_array b junk reglist)))
   \<and> peak (snd (snd (t4ka3_write_reg_array b junk reglist))) \<le> 29
   \<and> index (snd (snd (t4ka3_write_reg_array b junk reglist))) \<le> 27"
proof -
  obtain r b' c' where run: "t4ka3_write_reg_array b junk reglist = (r, b', c')"
    by (cases "t4ka3_write_reg_array b junk reglist") auto
  have "buf_ok \<lparr>index = 0, buffer = junk, oob = False, peak = 0\<rparr>"
    by (simp add: buf_ok_def)
  with run have "buf_ok c'"
    unfolding t4ka3_write_reg_array_def by (rule loop_buf_ok)
  with run show ?thesis by (simp add: buf_ok_def)
qed

section \<open>Bursts of the register-array writer\<close>

lemma be16_lo: "(ucast (cpu_to_be16 x) :: u8) = ucast (drop_bit 8 x)"
  unfolding cpu_to_be16_def
  by (rule bit_word_eqI) (auto simp: bit_simps)

lemma be16_hi: "(ucast (drop_bit 8 (cpu_to_be16 x)) :: u8) = ucast x"
  unfolding cpu_to_be16_def
  by (rule bit_word_eqI) (auto simp: bit_simps)

lemma ucast_32_16_8: "(ucast (ucast (v::u32) :: u16) :: u8) = ucast v"
  by (rule bit_word_eqI) (auto simp: bit_simps)

lemma ucast_32_16_8_hi: "(ucast (drop_bit 8 (ucast (v::u32) :: u16)) :: u8) = ucast (drop_bit 8 v)"
  by (rule bit_word_eqI) (auto simp: bit_simps)

lemma tok_distinct:
  "T4KA3_8BIT \<noteq> T4KA3_TOK_TERM" "T4KA3_16BIT \<noteq> T4KA3_TOK_TERM"
  "T4KA3_8BIT AND T4KA3_TOK_MASK \<noteq> T4KA3_TOK_DELAY"
  "T4KA3_16BIT AND T4KA3_TOK_MASK \<noteq> T4KA3_TOK_DELAY"
  "T4KA3_8BIT \<noteq> T4KA3_16BIT"
  by (simp_all add: T4KA3_8BIT_def T4KA3_16BIT_def T4KA3_TOK_TERM_def T4KA3_TOK_DELAY_def
      T4KA3_TOK_MASK_def)

lemma take_buffer_image:
  "n \<le> 30 \<Longrightarrow> take (Suc (Suc n)) (buffer_image buf) = u16_bytes (addr buf) @ map (data buf) [0..<n]"
  by (simp add: buffer_image_def u16_bytes_def T4KA3_MAX_WRITE_BUF_SIZE_def take_map)

lemma flush_empty: "index c = 0 \<Longrightarrow> t4ka3_flush_reg_array b c = (0, b, c)"
  by (simp add: t4ka3_flush_reg_array_def)

lemma flush_pending:
  assumes "index c \<noteq> 0" "index c \<le> 30"
  shows "t4ka3_flush_reg_array b c =
    (if xfer_ret b (nxfer b) = 1 then 0 else - EIO,
     b\<lparr>events := events b @ [I2cTransfer (burst (addr (buffer c)) (pending c))],
       nxfer := nxfer b + 1\<rparr>,
     c\<lparr>buffer := (buffer c)\<lparr>addr := cpu_to_be16 (addr (buffer c))\<rparr>, index := 0\<rparr>)"
  using assms
  by (simp add: t4ka3_flush_reg_array_def Let_def t4ka3_i2c_write_def i2c_transfer_def
      take_buffer_image u16_bytes_def be16_lo be16_hi burst_def pending_def)

lemma buf_reg_array_stage:
  assumes "is_write e"
  shows "t4ka3_buf_reg_array b c e =
     (if index (stage c e) + 2 \<ge> T4KA3_MAX_WRITE_BUF_SIZE
      then t4ka3_flush_reg_array b (stage c e) else (0, b, stage c e))"
  using assms
  by (auto simp: is_write_def t4ka3_buf_reg_array_def t4ka3_buf_advance_def stage_def Let_def
      reg_size_def tok_distinct)

lemma store_data_index [simp]: "index (store_data c i v) = index c"
  by (simp add: store_data_def)

lemma store_data16_index [simp]: "index (store_data16 c i v) = index c"
  by (simp add: store_data16_def)

lemma stage_index: "index (stage c e) = index c + reg_size e"
  by (simp add: stage_def Let_def)

lemma stage_addr:
  "addr (buffer (stage c e)) = (if index c = 0 then sreg e else addr (buffer c))"
  by (simp add: stage_def Let_def store_data_def store_data16_def)

lemma stage_pending:
  assumes "is_write e" "index c \<le> 28"
  shows "pending (stage c e) = pending c @ reg_bytes e"
  using assms
  by (auto simp: is_write_def stage_def Let_def pending_def reg_bytes_def reg_size_def
      store_data_def store_data16_def T4KA3_MAX_WRITE_BUF_SIZE_def u16_bytes_def
      be16_lo be16_hi ucast_32_16_8 ucast_32_16_8_hi tok_distinct)

lemma reg_size_pos: "0 < reg_size e" "reg_size e \<le> 2"
  by (simp_all add: reg_size_def)

lemma reg_size_nz [simp]: "reg_size e \<noteq> 0"
  by (simp add: reg_size_def)

declare t4ka3_write_reg_loop.simps(2) [simp del]

lemma total_bytes_Cons [simp]: "total_bytes (e # es) = reg_size e + total_bytes es"
  by (simp add: total_bytes_def)

lemma total_bytes_Nil [simp]: "total_bytes [] = 0"
  by (simp add: total_bytes_def)

lemma total_bytes_append [simp]: "total_bytes (xs @ ys) = total_bytes xs + total_bytes ys"
  by (simp add: total_bytes_def)

lemma total_bytes_0: "total_bytes es = 0 \<longleftrightarrow> es = []"
  using reg_size_pos(1) by (cases es) (auto simp: total_bytes_def intro: Nat.gr0I)

lemma loop_write_step:
  assumes "is_write e" "t4ka3_write_reg_is_consecutive c e"
  shows "t4ka3_write_reg_loop b c (e # rest) =
     (case t4ka3_buf_reg_array b c e of
        (err2, b2, c2) \<Rightarrow> if err2 \<noteq> 0 then (Some err2, b2, c2)
                           else t4ka3_write_reg_loop b2 c2 rest)"
  using assms
  by (auto simp: is_write_def tok_distinct tok_distinct[symmetric] t4ka3_write_reg_loop.simps(2))

lemma loop_accumulate:
  assumes "list_all is_write es" "contiguous_from s es"
    and "index c \<noteq> 0 \<Longrightarrow> unat (addr (buffer c)) + index c = s"
    and "index c + total_bytes es \<le> 27"
  shows "\<exists>c'. t4ka3_write_reg_loop b c (es @ rest) = t4ka3_write_reg_loop b c' rest
     \<and> index c' = index c + total_bytes es
     \<and> pending c' = pending c @ concat (map reg_bytes es)
     \<and> addr (buffer c') = (if index c = 0 \<and> es \<noteq> [] then sreg (hd es) else addr (buffer c))"
  using assms
proof (induction es arbitrary: c s)
  case Nil
  then show ?case by auto
next
  case (Cons e es)
  have w: "is_write e" and ws: "list_all is_write es" using Cons.prems(1) by simp_all
  have se: "unat (sreg e) = s" and cs: "contiguous_from (s + reg_size e) es"
    using Cons.prems(2) by simp_all
  have cons: "t4ka3_write_reg_is_consecutive c e"
    using Cons.prems(3) se by (auto simp: t4ka3_write_reg_is_consecutive_def)
  let ?c1 = "stage c e"
  have i1: "index ?c1 = index c + reg_size e" by (rule stage_index)
  have small: "\<not> index ?c1 + 2 \<ge> T4KA3_MAX_WRITE_BUF_SIZE"
    using Cons.prems(4) i1 by (simp add: T4KA3_MAX_WRITE_BUF_SIZE_def)
  have step: "t4ka3_write_reg_loop b c ((e # es) @ rest) = t4ka3_write_reg_loop b ?c1 (es @ rest)"
    using loop_write_step[OF w cons, of b "es @ rest"] buf_reg_array_stage[OF w, of b c] small
    by simp
  have a1: "index ?c1 \<noteq> 0 \<Longrightarrow> unat (addr (buffer ?c1)) + index ?c1 = s + reg_size e"
    using Cons.prems(3) se by (auto simp: stage_addr i1)
  have b1: "index ?c1 + total_bytes es \<le> 27" using Cons.prems(4) i1 by simp
  from Cons.IH[OF ws cs a1 b1] obtain c' where
    c': "t4ka3_write_reg_loop b ?c1 (es @ rest) = t4ka3_write_reg_loop b c' rest"
      "index c' = index ?c1 + total_bytes es"
      "pending c' = pending ?c1 @ concat (map reg_bytes es)"
      "addr (buffer c') = (if index ?c1 = 0 \<and> es \<noteq> [] then sreg (hd es) else addr (buffer ?c1))"
    by blast
  have p1: "pending ?c1 = pending c @ reg_bytes e"
    using stage_pending[OF w] Cons.prems(4) by simp
  have "index ?c1 \<noteq> 0" using i1 reg_size_pos(1)[of e] by simp
  with c' step i1 p1 show ?case
    by (intro exI[of _ c']) (simp add: stage_addr)
qed

lemma loop_burst:
  assumes ok: "\<forall>n. xfer_ret b n = 1"
    and "list_all is_write es" "contiguous_from s es"
    and "index c \<noteq> 0 \<Longrightarrow> unat (addr (buffer c)) + index c = s"
    and "index c + total_bytes es \<le> 28" "index c \<le> 27" "0 < index c + total_bytes es"
    and t: "rtype t = T4KA3_TOK_TERM"
  shows "\<exists>c'. t4ka3_write_reg_loop b c (es @ t # rest) =
     (Some 0,
      b\<lparr>events := events b @
          [I2cTransfer (burst (if index c = 0 then sreg (hd es) else addr (buffer c))
                              (pending c @ concat (map reg_bytes es)))],
        nxfer := nxfer b + 1\<rparr>, c')"
  using assms(2-7)
proof (induction es arbitrary: c s)
  case Nil
  then have nz: "index c \<noteq> 0" and le: "index c \<le> 30" by simp_all
  from flush_pending[OF nz le, of b] ok t nz show ?case
    by (simp add: t4ka3_write_reg_loop.simps(2))
next
  case (Cons e es)
  have w: "is_write e" and ws: "list_all is_write es" using Cons.prems(1) by simp_all
  have se: "unat (sreg e) = s" and cs: "contiguous_from (s + reg_size e) es"
    using Cons.prems(2) by simp_all
  have cons: "t4ka3_write_reg_is_consecutive c e"
    using Cons.prems(3) se by (auto simp: t4ka3_write_reg_is_consecutive_def)
  let ?c1 = "stage c e"
  have i1: "index ?c1 = index c + reg_size e" by (rule stage_index)
  have nz: "index ?c1 \<noteq> 0" using i1 reg_size_pos(1)[of e] by simp
  have p1: "pending ?c1 = pending c @ reg_bytes e"
    using stage_pending[OF w] Cons.prems(5) by simp
  show ?case
  proof (cases "index ?c1 + 2 \<ge> T4KA3_MAX_WRITE_BUF_SIZE")
    case True
    then have "total_bytes es = 0"
      using Cons.prems(4) i1 by (simp add: T4KA3_MAX_WRITE_BUF_SIZE_def)
    then have es: "es = []" by (simp add: total_bytes_0)
    have le: "index ?c1 \<le> 30" using Cons.prems(4) i1 by simp
    show ?thesis
      using loop_write_step[OF w cons, of b "es @ t # rest"] buf_reg_array_stage[OF w, of b c]
        True flush_pending[OF nz le, of b] ok t es p1
      by (simp add: stage_addr flush_empty t4ka3_write_reg_loop.simps(2))
  next
    case False
    then have step: "t4ka3_write_reg_loop b c ((e # es) @ t # rest)
        = t4ka3_write_reg_loop b ?c1 (es @ t # rest)"
      using loop_write_step[OF w cons, of b "es @ t # rest"] buf_reg_array_stage[OF w, of b c]
      by simp
    have a1: "index ?c1 \<noteq> 0 \<Longrightarrow> unat (addr (buffer ?c1)) + index ?c1 = s + reg_size e"
      using Cons.prems(3) se by (auto simp: stage_addr i1)
    have b1: "index ?c1 + total_bytes es \<le> 28" using Cons.prems(4) i1 by simp
    have b2: "index ?c1 \<le> 27" using False by (simp add: T4KA3_MAX_WRITE_BUF_SIZE_def)
    have b3: "0 < index ?c1 + total_bytes es" using nz by simp
    from Cons.IH[OF ws cs a1 b1 b2 b3] step nz p1 show ?thesis
      by (auto simp: stage_addr)
  qed
qed

lemma total_bytes_pos: "es \<noteq> [] \<Longrightarrow> 0 < total_bytes es"
  using total_bytes_0[of es] by simp

lemma loop_gap_step:
  assumes w: "is_write e" and nc: "\<not> t4ka3_write_reg_is_consecutive c e"
    and f: "t4ka3_flush_reg_array b c = (0, b1, c1)" and i: "index c1 = 0"
  shows "t4ka3_write_reg_loop b c (e # rest) = t4ka3_write_reg_loop b1 c1 (e # rest)"
proof -
  have "t4ka3_write_reg_is_consecutive c1 e"
    using i by (simp add: t4ka3_write_reg_is_consecutive_def)
  from loop_write_step[OF w this, of b1 rest] w nc f show ?thesis
    by (auto simp: is_write_def tok_distinct tok_distinct[symmetric]
        t4ka3_write_reg_loop.simps(2))
qed

text \<open>
  Claim C1. The adapter works (every transfer returns 1). \<open>xs\<close> is a non-empty list of
  write entries at consecutive addresses. If \<open>xs\<close> holds at most 28 value bytes,
  \<open>t4ka3_write_reg_array\<close> on \<open>xs\<close> followed by the terminator hands the adapter exactly one
  message: the address of the first entry, then all value bytes in list order. If \<open>ys\<close>
  is a second such list that does not start where \<open>xs\<close> ends (one address gap), and both
  together hold at most 28 value bytes, the writer hands over exactly two messages, the
  burst of \<open>xs\<close> and the burst of \<open>ys\<close>. Both times it returns 0.
\<close>

theorem write_reg_array_bursts:
  assumes ok: "\<forall>n. xfer_ret b n = 1"
    and t: "rtype t = T4KA3_TOK_TERM"
    and wx: "list_all is_write xs" and nx: "xs \<noteq> []"
    and cx: "contiguous_from (unat (sreg (hd xs))) xs"
  shows "(total_bytes xs \<le> 28 \<longrightarrow>
            (\<exists>c'. t4ka3_write_reg_array b junk (xs @ t # rest) =
               (Some 0,
                b\<lparr>events := events b @
                     [I2cTransfer (burst (sreg (hd xs)) (concat (map reg_bytes xs)))],
                  nxfer := nxfer b + 1\<rparr>, c')))
       \<and> (list_all is_write ys \<and> ys \<noteq> [] \<and> contiguous_from (unat (sreg (hd ys))) ys
            \<and> unat (sreg (hd ys)) \<noteq> unat (sreg (hd xs)) + total_bytes xs
            \<and> total_bytes xs + total_bytes ys \<le> 28 \<longrightarrow>
            (\<exists>c'. t4ka3_write_reg_array b junk (xs @ ys @ t # rest) =
               (Some 0,
                b\<lparr>events := events b @
                     [I2cTransfer (burst (sreg (hd xs)) (concat (map reg_bytes xs))),
                      I2cTransfer (burst (sreg (hd ys)) (concat (map reg_bytes ys)))],
                  nxfer := nxfer b + 2\<rparr>, c')))"
proof (intro conjI impI)
  let ?c0 = "\<lparr>index = 0, buffer = junk, oob = False, peak = 0\<rparr>"
  assume le: "total_bytes xs \<le> 28"
  have "\<exists>c'. t4ka3_write_reg_loop b ?c0 (xs @ t # rest) =
     (Some 0,
      b\<lparr>events := events b @
          [I2cTransfer (burst (if index ?c0 = 0 then sreg (hd xs) else addr (buffer ?c0))
                              (pending ?c0 @ concat (map reg_bytes xs)))],
        nxfer := nxfer b + 1\<rparr>, c')"
    by (rule loop_burst[OF ok wx cx _ _ _ _ t]) (use le total_bytes_pos[OF nx] in simp_all)
  then show "\<exists>c'. t4ka3_write_reg_array b junk (xs @ t # rest) =
               (Some 0,
                b\<lparr>events := events b @
                     [I2cTransfer (burst (sreg (hd xs)) (concat (map reg_bytes xs)))],
                  nxfer := nxfer b + 1\<rparr>, c')"
    by (simp add: t4ka3_write_reg_array_def pending_def)
next
  let ?c0 = "\<lparr>index = 0, buffer = junk, oob = False, peak = 0\<rparr>"
  assume "list_all is_write ys \<and> ys \<noteq> [] \<and> contiguous_from (unat (sreg (hd ys))) ys
            \<and> unat (sreg (hd ys)) \<noteq> unat (sreg (hd xs)) + total_bytes xs
            \<and> total_bytes xs + total_bytes ys \<le> 28"
  then have wy: "list_all is_write ys" and ny: "ys \<noteq> []"
    and cy: "contiguous_from (unat (sreg (hd ys))) ys"
    and gap: "unat (sreg (hd ys)) \<noteq> unat (sreg (hd xs)) + total_bytes xs"
    and le: "total_bytes xs + total_bytes ys \<le> 28"
    by simp_all
  have px: "0 < total_bytes xs" and py: "0 < total_bytes ys"
    using total_bytes_pos nx ny by simp_all
  \<comment> \<open>the entries before the gap are buffered without a flush\<close>
  obtain c1 where c1: "t4ka3_write_reg_loop b ?c0 (xs @ ys @ t # rest)
        = t4ka3_write_reg_loop b c1 (ys @ t # rest)"
      "index c1 = total_bytes xs"
      "pending c1 = concat (map reg_bytes xs)"
      "addr (buffer c1) = sreg (hd xs)"
    using loop_accumulate[OF wx cx, of ?c0 b "ys @ t # rest"] le py nx
    by (auto simp: pending_def)
  \<comment> \<open>the first entry after the gap flushes them\<close>
  obtain y ys' where ys: "ys = y # ys'" using ny by (cases ys) auto
  have wy1: "is_write y" using wy ys by simp
  have nc: "\<not> t4ka3_write_reg_is_consecutive c1 y"
    using gap c1(2,4) px ys by (simp add: t4ka3_write_reg_is_consecutive_def)
  let ?b1 = "b\<lparr>events := events b @ [I2cTransfer (burst (sreg (hd xs)) (concat (map reg_bytes xs)))],
                nxfer := nxfer b + 1\<rparr>"
  let ?c2 = "c1\<lparr>buffer := (buffer c1)\<lparr>addr := cpu_to_be16 (addr (buffer c1))\<rparr>, index := 0\<rparr>"
  have fl: "t4ka3_flush_reg_array b c1 = (0, ?b1, ?c2)"
    using flush_pending[of c1 b] c1(2,3,4) px le ok by simp
  have s2: "t4ka3_write_reg_loop b c1 (ys @ t # rest) = t4ka3_write_reg_loop ?b1 ?c2 (ys @ t # rest)"
    using loop_gap_step[OF wy1 nc fl] ys by simp
  \<comment> \<open>the entries after the gap form the second burst\<close>
  have ok1: "\<forall>n. xfer_ret ?b1 n = 1" using ok by simp
  have "\<exists>c'. t4ka3_write_reg_loop ?b1 ?c2 (ys @ t # rest) =
     (Some 0,
      ?b1\<lparr>events := events ?b1 @
          [I2cTransfer (burst (if index ?c2 = 0 then sreg (hd ys) else addr (buffer ?c2))
                              (pending ?c2 @ concat (map reg_bytes ys)))],
        nxfer := nxfer ?b1 + 1\<rparr>, c')"
    by (rule loop_burst[OF ok1 wy cy _ _ _ _ t]) (use le py in simp_all)
  with c1(1) s2
  show "\<exists>c'. t4ka3_write_reg_array b junk (xs @ ys @ t # rest) =
               (Some 0,
                b\<lparr>events := events b @
                     [I2cTransfer (burst (sreg (hd xs)) (concat (map reg_bytes xs))),
                      I2cTransfer (burst (sreg (hd ys)) (concat (map reg_bytes ys)))],
                  nxfer := nxfer b + 2\<rparr>, c')"
    by (simp add: t4ka3_write_reg_array_def pending_def)
qed

lemmas eval_defs = ok_bus_def zero_buffer_def reg8_def reg16_def tok_term_def
  is_write_def reg_size_def reg_bytes_def total_bytes_def burst_def
  T4KA3_8BIT_def T4KA3_16BIT_def T4KA3_TOK_TERM_def T4KA3_TOK_DELAY_def T4KA3_TOK_MASK_def

theorem write_reg_array_bursts_witness:
  "(\<forall>n. xfer_ret ok_bus n = 1) \<and> rtype tok_term = T4KA3_TOK_TERM
   \<and> list_all is_write [reg8 0x4136 0x13, reg16 0x4137 0x3344]
   \<and> [reg8 0x4136 0x13, reg16 0x4137 0x3344] \<noteq> []
   \<and> contiguous_from (unat (sreg (hd [reg8 0x4136 0x13, reg16 0x4137 0x3344])))
        [reg8 0x4136 0x13, reg16 0x4137 0x3344]
   \<and> total_bytes [reg8 0x4136 0x13, reg16 0x4137 0x3344] \<le> 28
   \<and> list_all is_write [reg8 0x3393 0x03] \<and> [reg8 0x3393 0x03] \<noteq> []
   \<and> contiguous_from (unat (sreg (hd [reg8 0x3393 0x03]))) [reg8 0x3393 0x03]
   \<and> unat (sreg (hd [reg8 0x3393 0x03]))
        \<noteq> unat (sreg (hd [reg8 0x4136 0x13, reg16 0x4137 0x3344]))
            + total_bytes [reg8 0x4136 0x13, reg16 0x4137 0x3344]
   \<and> total_bytes [reg8 0x4136 0x13, reg16 0x4137 0x3344] + total_bytes [reg8 0x3393 0x03] \<le> 28
   \<and> (\<exists>c'. t4ka3_write_reg_array ok_bus zero_buffer
               ([reg8 0x4136 0x13, reg16 0x4137 0x3344] @ tok_term # []) =
          (Some 0,
           ok_bus\<lparr>events := events ok_bus @ [I2cTransfer [0x41, 0x36, 0x13, 0x33, 0x44]],
                  nxfer := nxfer ok_bus + 1\<rparr>, c'))
   \<and> (\<exists>c'. t4ka3_write_reg_array ok_bus zero_buffer
               ([reg8 0x4136 0x13, reg16 0x4137 0x3344] @ [reg8 0x3393 0x03] @ tok_term # []) =
          (Some 0,
           ok_bus\<lparr>events := events ok_bus @ [I2cTransfer [0x41, 0x36, 0x13, 0x33, 0x44],
                                               I2cTransfer [0x33, 0x93, 0x03]],
                  nxfer := nxfer ok_bus + 2\<rparr>, c'))"
proof -
  have h: "\<forall>n. xfer_ret ok_bus n = 1" "rtype tok_term = T4KA3_TOK_TERM"
    "list_all is_write [reg8 0x4136 0x13, reg16 0x4137 0x3344]"
    "[reg8 0x4136 0x13, reg16 0x4137 0x3344] \<noteq> []"
    "contiguous_from (unat (sreg (hd [reg8 0x4136 0x13, reg16 0x4137 0x3344])))
        [reg8 0x4136 0x13, reg16 0x4137 0x3344]"
    by (simp_all add: eval_defs)
  have g: "total_bytes [reg8 0x4136 0x13, reg16 0x4137 0x3344] \<le> 28"
    "list_all is_write [reg8 0x3393 0x03] \<and> [reg8 0x3393 0x03] \<noteq> []
   \<and> contiguous_from (unat (sreg (hd [reg8 0x3393 0x03]))) [reg8 0x3393 0x03]
   \<and> unat (sreg (hd [reg8 0x3393 0x03]))
        \<noteq> unat (sreg (hd [reg8 0x4136 0x13, reg16 0x4137 0x3344]))
            + total_bytes [reg8 0x4136 0x13, reg16 0x4137 0x3344]
   \<and> total_bytes [reg8 0x4136 0x13, reg16 0x4137 0x3344] + total_bytes [reg8 0x3393 0x03] \<le> 28"
    by (simp_all add: eval_defs)
  have b1: "burst (sreg (hd [reg8 0x4136 0x13, reg16 0x4137 0x3344]))
              (concat (map reg_bytes [reg8 0x4136 0x13, reg16 0x4137 0x3344]))
            = [0x41, 0x36, 0x13, 0x33, 0x44]"
    by (simp add: eval_defs)
  have b2: "burst (sreg (hd [reg8 0x3393 0x03])) (concat (map reg_bytes [reg8 0x3393 0x03]))
            = [0x33, 0x93, 0x03]"
    by (simp add: eval_defs)
  show ?thesis
    using write_reg_array_bursts[OF h, of zero_buffer "[]" "[reg8 0x3393 0x03]", unfolded b1 b2]
      h g
    by blast
qed

section \<open>A failing transfer cuts the register list short\<close>

lemma transfers_append [simp]: "transfers (xs @ ys) = transfers xs + transfers ys"
  by (induction xs rule: transfers.induct) auto

lemma through_all: "transfers xs \<le> n \<Longrightarrow> through_transfer n xs = xs"
  by (induction n xs rule: through_transfer.induct) (auto split: nat.splits)

lemma through_append:
  "through_transfer n (xs @ ys) =
     (if transfers xs \<le> n then xs @ through_transfer (n - transfers xs) ys
      else through_transfer n xs)"
  by (induction n xs rule: through_transfer.induct) (auto split: nat.splits)

lemma adv_adv [simp]: "adv (adv b e1 n1) e2 n2 = adv b (e1 @ e2) n2"
  by (simp add: adv_def)

lemma adv_fields [simp]:
  "events (adv b e n) = events b @ e" "nxfer (adv b e n) = n" "xfer_ret (adv b e n) = xfer_ret b"
  by (simp_all add: adv_def)

lemma adv_id [simp]: "adv b [] (nxfer b) = b"
  by (simp add: adv_def)

lemma cut_noop: "twins k g b \<Longrightarrow> cut fault k g b (r, g, c) (r, b, c)"
  unfolding cut_def twins_def
  by (intro exI[of _ r] exI[of _ "[]"] exI[of _ c]) (simp add: min_def)

lemma cut_msleep:
  "twins k g b \<Longrightarrow> cut fault k g b (r, msleep g ms, c) (r, msleep b ms, c)"
  unfolding cut_def twins_def
  by (intro exI[of _ r] exI[of _ "[Msleep ms]"] exI[of _ c])
    (simp add: min_def msleep_def adv_def)

lemma flush_unfold:
  "t4ka3_flush_reg_array b c =
    (if index c = 0 then (0, b, c)
     else (if xfer_ret b (nxfer b) = 1 then 0 else - EIO,
           adv b [I2cTransfer (take (2 + index c) (buffer_image
                   ((buffer c)\<lparr>addr := cpu_to_be16 (addr (buffer c))\<rparr>)))] (nxfer b + 1),
           c\<lparr>buffer := (buffer c)\<lparr>addr := cpu_to_be16 (addr (buffer c))\<rparr>, index := 0\<rparr>))"
  by (simp add: t4ka3_flush_reg_array_def Let_def t4ka3_i2c_write_def i2c_transfer_def adv_def)

lemma cut_flush:
  assumes "twins k g b"
  shows "cut (- EIO) k g b (t4ka3_flush_reg_array g c) (t4ka3_flush_reg_array b c)"
proof (cases "index c = 0")
  case True
  then show ?thesis using cut_noop[OF assms] by (simp add: flush_unfold)
next
  case False
  let ?m = "take (2 + index c) (buffer_image ((buffer c)\<lparr>addr := cpu_to_be16 (addr (buffer c))\<rparr>))"
  let ?c = "c\<lparr>buffer := (buffer c)\<lparr>addr := cpu_to_be16 (addr (buffer c))\<rparr>, index := 0\<rparr>"
  from assms have gok: "xfer_ret g (nxfer g) = 1" and n: "nxfer g = nxfer b" "nxfer b \<le> k"
    and bk: "xfer_ret b k \<noteq> 1" and bl: "nxfer b < k \<Longrightarrow> xfer_ret b (nxfer b) = 1"
    by (auto simp: twins_def)
  show ?thesis
  proof (cases "nxfer b = k")
    case True
    with False gok n bk show ?thesis
      unfolding cut_def flush_unfold
      by (intro exI[of _ 0] exI[of _ "[I2cTransfer ?m]"] exI[of _ ?c] exI[of _ "- EIO"]) simp
  next
    case nk: False
    with n have lt: "nxfer b < k" by simp
    then obtain d where d: "k - nxfer b = Suc d" by (cases "k - nxfer b") auto
    from False gok n bl[OF lt] lt d show ?thesis
      unfolding cut_def flush_unfold
      by (intro exI[of _ 0] exI[of _ "[I2cTransfer ?m]"] exI[of _ ?c] exI[of _ 0]) (simp add: min_def)
  qed
qed

lemma twins_dummy:
  assumes "\<forall>j. xfer_ret g j = 1"
  shows "twins (nxfer g) g (g\<lparr>xfer_ret := (\<lambda>j. if j = nxfer g then 0 else 1)\<rparr>)"
  using assms by (simp add: twins_def)

lemma cut_bind:
  fixes opa :: "i2c_bus \<Rightarrow> int \<times> i2c_bus \<times> t4ka3_write_ctrl"
    and opb :: "i2c_bus \<Rightarrow> t4ka3_write_ctrl \<Rightarrow> 'r \<times> i2c_bus \<times> t4ka3_write_ctrl"
    and ret :: "int \<Rightarrow> 'r"
  assumes tw: "twins k g b"
    and c1: "cut (- EIO) k g b (opa g) (opa b)"
    and c2: "\<And>k' g1 b1 c1. twins k' g1 b1 \<Longrightarrow> cut (ret (- EIO)) k' g1 b1 (opb g1 c1) (opb b1 c1)"
  shows "cut (ret (- EIO)) k g b
           (case opa g of (err, g1, c) \<Rightarrow> if err \<noteq> 0 then (ret err, g1, c) else opb g1 c)
           (case opa b of (err, b1, c) \<Rightarrow> if err \<noteq> 0 then (ret err, b1, c) else opb b1 c)"
proof -
  from c1 obtain rg new cg rb cb where
    G: "opa g = (rg, adv g new (nxfer g + transfers new), cg)" and
    B: "opa b = (rb, adv b (through_transfer (k - nxfer b) new)
                      (min (nxfer g + transfers new) (k + 1)), cb)" and
    R: "if k < nxfer g + transfers new then rb = - EIO else rb = rg \<and> cb = cg"
    unfolding cut_def by blast
  from tw have gok: "\<forall>j. xfer_ret g j = 1" and n: "nxfer g = nxfer b" "nxfer b \<le> k"
    by (auto simp: twins_def)
  let ?g1 = "adv g new (nxfer g + transfers new)"
  have gok1: "\<forall>j. xfer_ret ?g1 j = 1" using gok by simp
  show ?thesis
  proof (cases "k < nxfer g + transfers new")
    case True
    with R have rb: "rb = - EIO" by simp
    have big: "\<not> transfers new \<le> k - nxfer b" using True n by simp
    show ?thesis
    proof (cases "rg \<noteq> 0")
      case True
      with \<open>k < nxfer g + transfers new\<close> rb show ?thesis
        unfolding cut_def G B
        by (intro exI[of _ "ret rg"] exI[of _ new] exI[of _ cg] exI[of _ "ret (- EIO)"] exI[of _ cb])
          (simp add: EIO_def)
    next
      case False
      from c2[OF twins_dummy[OF gok1], of cg] obtain r2 new2 c2' where
        G2: "opb ?g1 cg = (r2, adv ?g1 new2 (nxfer ?g1 + transfers new2), c2')"
        unfolding cut_def by blast
      from False \<open>k < nxfer g + transfers new\<close> rb big show ?thesis
        unfolding cut_def G B
        by (intro exI[of _ r2] exI[of _ "new @ new2"] exI[of _ c2'] exI[of _ "ret (- EIO)"]
            exI[of _ cb])
          (simp add: EIO_def G2 through_append add.assoc)
    qed
  next
    case False
    with R have rb: "rb = rg" "cb = cg" by simp_all
    have small: "transfers new \<le> k - nxfer b" using False n by simp
    have th: "through_transfer (k - nxfer b) new = new" using through_all[OF small] .
    have mn: "min (nxfer g + transfers new) (k + 1) = nxfer g + transfers new"
      using False by simp
    let ?b1 = "adv b new (nxfer g + transfers new)"
    show ?thesis
    proof (cases "rg \<noteq> 0")
      case True
      with False rb th show ?thesis
        unfolding cut_def G B
        by (intro exI[of _ "ret rg"] exI[of _ new] exI[of _ cg] exI[of _ "ret rg"] exI[of _ cg])
          simp
    next
      case rz: False
      have tw1: "twins k ?g1 ?b1" using tw False by (simp add: twins_def)
      from c2[OF tw1, of cg] obtain r2 new2 c2' rb2 cb2 where
        G2: "opb ?g1 cg = (r2, adv ?g1 new2 (nxfer ?g1 + transfers new2), c2')" and
        B2: "opb ?b1 cg = (rb2, adv ?b1 (through_transfer (k - nxfer ?b1) new2)
                      (min (nxfer ?g1 + transfers new2) (k + 1)), cb2)" and
        R2: "if k < nxfer ?g1 + transfers new2 then rb2 = ret (- EIO) else rb2 = r2 \<and> cb2 = c2'"
        unfolding cut_def by blast
      have k2: "k - (nxfer g + transfers new) = k - nxfer b - transfers new" using n by simp
      from rz rb R2 show ?thesis
        unfolding cut_def G B th mn
        by (intro exI[of _ r2] exI[of _ "new @ new2"] exI[of _ c2'] exI[of _ rb2] exI[of _ cb2])
          (simp add: G2 B2 through_append small add.assoc k2)
    qed
  qed
qed

lemma cut_buf_advance:
  assumes "twins k g b"
  shows "cut (- EIO) k g b (t4ka3_buf_advance g c e sz) (t4ka3_buf_advance b c e sz)"
  by (simp add: t4ka3_buf_advance_def Let_def cut_flush[OF assms] cut_noop[OF assms])

lemma cut_buf_reg_array:
  assumes "twins k g b"
  shows "cut (- EIO) k g b (t4ka3_buf_reg_array g c e) (t4ka3_buf_reg_array b c e)"
  by (simp add: t4ka3_buf_reg_array_def cut_buf_advance[OF assms] cut_noop[OF assms])

lemma cut_cond_flush:
  assumes "twins k g b"
  shows "cut (- EIO) k g b
           (if \<not> t4ka3_write_reg_is_consecutive c e then t4ka3_flush_reg_array g c else (0, g, c))
           (if \<not> t4ka3_write_reg_is_consecutive c e then t4ka3_flush_reg_array b c else (0, b, c))"
  by (simp add: cut_flush[OF assms] cut_noop[OF assms])

lemma cut_loop:
  "twins k g b \<Longrightarrow>
     cut (Some (- EIO)) k g b (t4ka3_write_reg_loop g c rs) (t4ka3_write_reg_loop b c rs)"
proof (induction rs arbitrary: k g b c)
  case Nil
  then show ?case by (simp add: cut_noop)
next
  case (Cons e rs)
  note tw = Cons.prems
  show ?case
  proof (cases "rtype e = T4KA3_TOK_TERM")
    case True
    have "cut (Some (- EIO)) k g b
        (case t4ka3_flush_reg_array g c of (err, g1, c1) \<Rightarrow>
           if err \<noteq> 0 then (Some err, g1, c1) else (Some 0, g1, c1))
        (case t4ka3_flush_reg_array b c of (err, b1, c1) \<Rightarrow>
           if err \<noteq> 0 then (Some err, b1, c1) else (Some 0, b1, c1))"
      by (rule cut_bind[where ret = Some, OF tw cut_flush[OF tw]]) (rule cut_noop)
    moreover have "\<And>x. (case t4ka3_flush_reg_array x c of (err, g1, c1) \<Rightarrow>
           if err \<noteq> 0 then (Some err, g1, c1) else (Some 0, g1, c1))
         = (case t4ka3_flush_reg_array x c of (err, g1, c1) \<Rightarrow> (Some err, g1, c1))"
      by (auto split: prod.splits)
    ultimately show ?thesis using True by (simp add: t4ka3_write_reg_loop.simps(2))
  next
    case nt: False
    show ?thesis
    proof (cases "rtype e AND T4KA3_TOK_MASK = T4KA3_TOK_DELAY")
      case True
      have "cut (Some (- EIO)) k g b
        (case t4ka3_flush_reg_array g c of (err, g1, c1) \<Rightarrow>
           if err \<noteq> 0 then (Some err, g1, c1)
           else t4ka3_write_reg_loop (msleep g1 (unat (val e))) c1 rs)
        (case t4ka3_flush_reg_array b c of (err, b1, c1) \<Rightarrow>
           if err \<noteq> 0 then (Some err, b1, c1)
           else t4ka3_write_reg_loop (msleep b1 (unat (val e))) c1 rs)"
      proof (rule cut_bind[where ret = Some, OF tw cut_flush[OF tw]])
        fix k' g1 b1 c1
        assume t1: "twins k' g1 b1"
        have m: "cut (- EIO) k' g1 b1 (0, msleep g1 (unat (val e)), c1)
                   (0, msleep b1 (unat (val e)), c1)"
          by (rule cut_msleep[OF t1])
        have "cut (Some (- EIO)) k' g1 b1
           (case (0, msleep g1 (unat (val e)), c1) of (err, g2, c2) \<Rightarrow>
              if err \<noteq> 0 then (Some err, g2, c2) else t4ka3_write_reg_loop g2 c2 rs)
           (case (0, msleep b1 (unat (val e)), c1) of (err, b2, c2) \<Rightarrow>
              if err \<noteq> 0 then (Some err, b2, c2) else t4ka3_write_reg_loop b2 c2 rs)"
          by (rule cut_bind[where ret = Some and
                opa = "\<lambda>x. (0::int, msleep x (unat (val e)), c1)", OF t1 m]) (rule Cons.IH)
        then show "cut (Some (- EIO)) k' g1 b1
           (t4ka3_write_reg_loop (msleep g1 (unat (val e))) c1 rs)
           (t4ka3_write_reg_loop (msleep b1 (unat (val e))) c1 rs)"
          by simp
      qed
      with nt True show ?thesis by (simp add: t4ka3_write_reg_loop.simps(2))
    next
      case nd: False
      have "cut (Some (- EIO)) k g b
        (case (if \<not> t4ka3_write_reg_is_consecutive c e
               then t4ka3_flush_reg_array g c else (0, g, c)) of (err, g1, c1) \<Rightarrow>
           if err \<noteq> 0 then (Some err, g1, c1)
           else (case t4ka3_buf_reg_array g1 c1 e of (err2, g2, c2) \<Rightarrow>
                   if err2 \<noteq> 0 then (Some err2, g2, c2) else t4ka3_write_reg_loop g2 c2 rs))
        (case (if \<not> t4ka3_write_reg_is_consecutive c e
               then t4ka3_flush_reg_array b c else (0, b, c)) of (err, b1, c1) \<Rightarrow>
           if err \<noteq> 0 then (Some err, b1, c1)
           else (case t4ka3_buf_reg_array b1 c1 e of (err2, b2, c2) \<Rightarrow>
                   if err2 \<noteq> 0 then (Some err2, b2, c2) else t4ka3_write_reg_loop b2 c2 rs))"
      proof (rule cut_bind[where ret = Some and
            opa = "\<lambda>x. if \<not> t4ka3_write_reg_is_consecutive c e
               then t4ka3_flush_reg_array x c else (0::int, x, c)", OF tw cut_cond_flush[OF tw]])
        fix k' g1 b1 c1
        assume t1: "twins k' g1 b1"
        show "cut (Some (- EIO)) k' g1 b1
           (case t4ka3_buf_reg_array g1 c1 e of (err2, g2, c2) \<Rightarrow>
                   if err2 \<noteq> 0 then (Some err2, g2, c2) else t4ka3_write_reg_loop g2 c2 rs)
           (case t4ka3_buf_reg_array b1 c1 e of (err2, b2, c2) \<Rightarrow>
                   if err2 \<noteq> 0 then (Some err2, b2, c2) else t4ka3_write_reg_loop b2 c2 rs)"
          by (rule cut_bind[where ret = Some and opa = "\<lambda>x. t4ka3_buf_reg_array x c1 e",
                OF t1 cut_buf_reg_array[OF t1]]) (rule Cons.IH)
      qed
      with nt nd show ?thesis by (simp add: t4ka3_write_reg_loop.simps(2))
    qed
  qed
qed

text \<open>
  Claim C2. Let transfer number \<open>k\<close> be the first that fails on adapter \<open>b\<close>, and let the
  register list \<open>P\<close> be one that gets as far as transfer \<open>k\<close> when no transfer fails. Then
  \<open>t4ka3_write_reg_array\<close> returns \<open>-EIO\<close>, and what it has handed to the adapter is the
  trace of the fault-free run up to and including transfer \<open>k\<close>: the bursts before \<open>k\<close>
  and the burst attempted at \<open>k\<close>, nothing of a later entry, and nothing taken back from
  what the adapter held before (\<open>events b\<close> is a prefix of the result).
\<close>

theorem write_reg_array_fault:
  assumes before: "\<forall>j<k. xfer_ret b j = 1" and at: "xfer_ret b k \<noteq> 1"
    and start: "nxfer b \<le> k"
    and reached: "k < nxfer (fst (snd (t4ka3_write_reg_array (b\<lparr>xfer_ret := (\<lambda>_. 1)\<rparr>) junk P)))"
  shows "\<exists>new c'.
      events (fst (snd (t4ka3_write_reg_array (b\<lparr>xfer_ret := (\<lambda>_. 1)\<rparr>) junk P)))
        = events b @ new
    \<and> t4ka3_write_reg_array b junk P =
        (Some (- EIO),
         b\<lparr>events := events b @ through_transfer (k - nxfer b) new, nxfer := k + 1\<rparr>, c')"
proof -
  let ?g = "b\<lparr>xfer_ret := (\<lambda>_. 1)\<rparr>"
  have tw: "twins k ?g b" using before at start by (simp add: twins_def)
  from cut_loop[OF tw, of "\<lparr>index = 0, buffer = junk, oob = False, peak = 0\<rparr>" P]
  obtain rg new cg rb cb where
    G: "t4ka3_write_reg_array ?g junk P = (rg, adv ?g new (nxfer ?g + transfers new), cg)" and
    B: "t4ka3_write_reg_array b junk P = (rb, adv b (through_transfer (k - nxfer b) new)
                      (min (nxfer ?g + transfers new) (k + 1)), cb)" and
    R: "if k < nxfer ?g + transfers new then rb = Some (- EIO) else rb = rg \<and> cb = cg"
    unfolding cut_def t4ka3_write_reg_array_def by blast
  from reached G have lt: "k < nxfer ?g + transfers new" by simp
  with R have "rb = Some (- EIO)" by simp
  with G B lt show ?thesis
    by (intro exI[of _ new] exI[of _ cb]) (simp add: adv_def min_def)
qed

theorem write_reg_array_fault_witness:
  "xfer_ret (flaky_bus 1) 0 = 1 \<and> xfer_ret (flaky_bus 1) 1 \<noteq> 1
   \<and> nxfer (flaky_bus 1) \<le> 1
   \<and> 1 < nxfer (fst (snd (t4ka3_write_reg_array ((flaky_bus 1)\<lparr>xfer_ret := (\<lambda>_. 1)\<rparr>)
                              zero_buffer three_bursts)))
   \<and> events (fst (snd (t4ka3_write_reg_array ((flaky_bus 1)\<lparr>xfer_ret := (\<lambda>_. 1)\<rparr>)
                          zero_buffer three_bursts)))
       = [I2cTransfer [0x01, 0x00, 0x01], I2cTransfer [0x01, 0x04, 0x01, 0x02, 0x03],
          I2cTransfer [0x03, 0x40, 0x09]]
   \<and> (\<exists>c'. t4ka3_write_reg_array (flaky_bus 1) zero_buffer three_bursts =
          (Some (- EIO),
           (flaky_bus 1)\<lparr>events := [I2cTransfer [0x01, 0x00, 0x01],
                                     I2cTransfer [0x01, 0x04, 0x01, 0x02, 0x03]],
                          nxfer := 2\<rparr>, c'))"
proof -
  have h1: "\<forall>j<1. xfer_ret (flaky_bus 1) j = 1" and h2: "xfer_ret (flaky_bus 1) 1 \<noteq> 1"
    and h3: "nxfer (flaky_bus 1) \<le> 1"
    by (simp_all add: flaky_bus_def)
  have h4: "1 < nxfer (fst (snd (t4ka3_write_reg_array ((flaky_bus 1)\<lparr>xfer_ret := (\<lambda>_. 1)\<rparr>)
                              zero_buffer three_bursts)))"
    by code_simp
  have ev: "events (fst (snd (t4ka3_write_reg_array ((flaky_bus 1)\<lparr>xfer_ret := (\<lambda>_. 1)\<rparr>)
                          zero_buffer three_bursts)))
       = [I2cTransfer [0x01, 0x00, 0x01], I2cTransfer [0x01, 0x04, 0x01, 0x02, 0x03],
          I2cTransfer [0x03, 0x40, 0x09]]"
    by code_simp
  from write_reg_array_fault[OF h1 h2 h3 h4] obtain new c' where
    new: "events (fst (snd (t4ka3_write_reg_array ((flaky_bus 1)\<lparr>xfer_ret := (\<lambda>_. 1)\<rparr>)
                          zero_buffer three_bursts))) = events (flaky_bus 1) @ new"
    and run: "t4ka3_write_reg_array (flaky_bus 1) zero_buffer three_bursts =
        (Some (- EIO),
         (flaky_bus 1)\<lparr>events := events (flaky_bus 1)
                          @ through_transfer (1 - nxfer (flaky_bus 1)) new, nxfer := 1 + 1\<rparr>, c')"
    by blast
  from new ev have "new = [I2cTransfer [0x01, 0x00, 0x01],
      I2cTransfer [0x01, 0x04, 0x01, 0x02, 0x03], I2cTransfer [0x03, 0x40, 0x09]]"
    by (simp add: flaky_bus_def)
  with run have "t4ka3_write_reg_array (flaky_bus 1) zero_buffer three_bursts =
          (Some (- EIO),
           (flaky_bus 1)\<lparr>events := [I2cTransfer [0x01, 0x00, 0x01],
                                     I2cTransfer [0x01, 0x04, 0x01, 0x02, 0x03]],
                          nxfer := 2\<rparr>, c')"
    by (simp add: flaky_bus_def)
  moreover have "xfer_ret (flaky_bus 1) 0 = 1" by (simp add: flaky_bus_def)
  ultimately show ?thesis using h2 h3 h4 ev by blast
qed

lemmas kernel_defs = do_call_def pm_runtime_get_sync_def pm_runtime_put_def
  pm_runtime_get_if_in_use_def cci_write_def cci_update_bits_def cci_multi_reg_write_def
  v4l2_ctrl_modify_range_def

section \<open>Bayer order and flip\<close>

text \<open>
  Claim C6. \<open>t4ka3_set_bayer_order\<close> keeps width and height and stores the code that the
  table gives for the values the two flip controls hold at the call, whatever code the
  format held before: for (vflip, hflip), (0,0) GRBG, (0,1) RGGB, (1,0) BGGR, (1,1) GBRG,
  every value other than 0 counting as 1 and a control that is \<open>NULL\<close> as 0. The table
  \<open>t4ka3_bayer_order_mapping[vflip][hflip]\<close> of the oldest driver holds the same four
  orders.
\<close>

theorem set_bayer_order_table:
  "t4ka3_set_bayer_order
       (sensor\<lparr>ctrls := (ctrls sensor)\<lparr>vflip := Some v, hflip := Some h\<rparr>\<rparr>) fmt
     = fmt\<lparr>code :=
         (if cval v = 0
          then (if cval h = 0 then MEDIA_BUS_FMT_SGRBG10_1X10 else MEDIA_BUS_FMT_SRGGB10_1X10)
          else (if cval h = 0 then MEDIA_BUS_FMT_SBGGR10_1X10 else MEDIA_BUS_FMT_SGBRG10_1X10))\<rparr>
   \<and> t4ka3_set_bayer_order
       (sensor\<lparr>ctrls := (ctrls sensor)\<lparr>vflip := None, hflip := Some h\<rparr>\<rparr>) fmt
     = fmt\<lparr>code :=
         (if cval h = 0 then MEDIA_BUS_FMT_SGRBG10_1X10 else MEDIA_BUS_FMT_SRGGB10_1X10)\<rparr>
   \<and> t4ka3_set_bayer_order
       (sensor\<lparr>ctrls := (ctrls sensor)\<lparr>vflip := Some v, hflip := None\<rparr>\<rparr>) fmt
     = fmt\<lparr>code :=
         (if cval v = 0 then MEDIA_BUS_FMT_SGRBG10_1X10 else MEDIA_BUS_FMT_SBGGR10_1X10)\<rparr>
   \<and> t4ka3_set_bayer_order
       (sensor\<lparr>ctrls := (ctrls sensor)\<lparr>vflip := None, hflip := None\<rparr>\<rparr>) fmt
     = fmt\<lparr>code := MEDIA_BUS_FMT_SGRBG10_1X10\<rparr>
   \<and> t4ka3_bayer_order_mapping ! 0 ! 0 = atomisp_bayer_order_grbg
   \<and> t4ka3_bayer_order_mapping ! 0 ! 1 = atomisp_bayer_order_rggb
   \<and> t4ka3_bayer_order_mapping ! 1 ! 0 = atomisp_bayer_order_bggr
   \<and> t4ka3_bayer_order_mapping ! 1 ! 1 = atomisp_bayer_order_gbrg"
  by (simp add: t4ka3_set_bayer_order_def ctrl_set_def t4ka3_hv_flip_bayer_order_def
      t4ka3_bayer_order_mapping_def Let_def)

text \<open>
  Claim C7. While \<open>streaming\<close> is set, \<open>t4ka3_t_hflip\<close> and \<open>t4ka3_t_vflip\<close> return
  \<open>-EBUSY\<close> for every value, make no kernel call (so no register is read or written)
  and leave the sensor state, flip and format included, as it was.
\<close>

theorem flip_while_streaming:
  assumes "streaming sensor \<noteq> 0"
  shows "t4ka3_t_hflip k sensor v = (- EBUSY, k, sensor)
       \<and> t4ka3_t_vflip k sensor v = (- EBUSY, k, sensor)"
  using assms by (simp add: t4ka3_t_hflip_def t4ka3_t_vflip_def)

theorem flip_while_streaming_witness:
  "streaming (stopped_sensor\<lparr>streaming := 1\<rparr>) \<noteq> 0
   \<and> t4ka3_t_hflip (kernel_script []) (stopped_sensor\<lparr>streaming := 1\<rparr>) 1
       = (- 16, kernel_script [], stopped_sensor\<lparr>streaming := 1\<rparr>)
   \<and> t4ka3_t_vflip (kernel_script []) (stopped_sensor\<lparr>streaming := 1\<rparr>) 0
       = (- 16, kernel_script [], stopped_sensor\<lparr>streaming := 1\<rparr>)"
proof -
  have h: "streaming (stopped_sensor\<lparr>streaming := 1\<rparr>) \<noteq> 0" by simp
  from flip_while_streaming[OF h, of "kernel_script []" 1]
       flip_while_streaming[OF h, of "kernel_script []" 0] h
  show ?thesis by (simp add: EBUSY_def)
qed

section \<open>Streaming\<close>

text \<open>
  Claim C4. When \<open>t4ka3_s_stream\<close> is asked for the state the sensor holds, it makes no
  kernel call and leaves the sensor as it is, but what it returns is \<open>ret_entry\<close>, the
  value the uninitialised local \<open>ret\<close> held on entry: the path \<open>goto error_unlock\<close> never
  assigns it. So a second stream-enable in a row returns \<open>-22\<close> when the stack held
  \<open>-22\<close>, not 0.
\<close>

theorem s_stream_same_state:
  "t4ka3_s_stream ret_entry k (sensor\<lparr>streaming := enable\<rparr>) enable
     = (ret_entry, k, sensor\<lparr>streaming := enable\<rparr>)
   \<and> t4ka3_s_stream (- 22) (kernel_script []) (stopped_sensor\<lparr>streaming := 1\<rparr>) 1
     = (- 22, kernel_script [], stopped_sensor\<lparr>streaming := 1\<rparr>)"
  by (simp add: t4ka3_s_stream_def)

text \<open>
  Claim C3. Stream-enable on a stopped sensor where \<open>pm_runtime_get_sync\<close> returns 0, the
  write of the init configuration fails with \<open>-EIO\<close> and \<open>pm_runtime_put\<close> returns 0: the
  function releases the power reference and leaves \<open>streaming\<close> at 0, but returns 0,
  because \<open>error_powerdown\<close> overwrites \<open>ret\<close> with the result of \<open>pm_runtime_put\<close>. And
  where \<open>pm_runtime_get_sync\<close> itself fails, the function returns the error with no
  \<open>pm_runtime_put\<close> at all.
\<close>

theorem s_stream_enable_failure:
  "t4ka3_s_stream ret_entry (kernel_script [0, - EIO, 0]) stopped_sensor 1
     = (0, (kernel_script [0, - EIO, 0])
             \<lparr>calls := [Pm_runtime_get_sync, Cci_multi_reg_write T4ka3_init_config,
                        Pm_runtime_put]\<rparr>, stopped_sensor)
   \<and> t4ka3_s_stream ret_entry (kernel_script [- EIO]) stopped_sensor 1
     = (- EIO, (kernel_script [- EIO])\<lparr>calls := [Pm_runtime_get_sync]\<rparr>, stopped_sensor)"
  by (simp add: t4ka3_s_stream_def t4ka3_stream_on_def error_powerdown_def kernel_defs
      kernel_script_def stopped_sensor_def EIO_def)

section \<open>Exposure and gain\<close>

lemma cci_write_all_ok:
  "(\<forall>i<length ws. ret_of k (length (calls k) + i) = 0) \<Longrightarrow>
     cci_write_all k ws = (0, k\<lparr>calls := calls k @ map as_call ws\<rparr>)"
proof (induction ws arbitrary: k)
  case Nil
  then show ?case by simp
next
  case (Cons w ws)
  obtain reg v where w: "w = (reg, v)" by (cases w)
  let ?k1 = "k\<lparr>calls := calls k @ [Cci_write reg v]\<rparr>"
  from Cons.prems have r0: "ret_of k (length (calls k)) = 0" by auto
  have "\<forall>i<length ws. ret_of ?k1 (length (calls ?k1) + i) = 0"
  proof (intro allI impI)
    fix i assume "i < length ws"
    then have "Suc i < length (w # ws)" by simp
    with Cons.prems have "ret_of k (length (calls k) + Suc i) = 0" by blast
    then show "ret_of ?k1 (length (calls ?k1) + i) = 0" by simp
  qed
  from Cons.IH[OF this] r0 show ?case
    by (simp add: w cci_write_def do_call_def as_call_def)
qed

lemma cci_write_all_fail:
  "j < length ws \<Longrightarrow> (\<forall>i<j. ret_of k (length (calls k) + i) = 0) \<Longrightarrow>
   ret_of k (length (calls k) + j) \<noteq> 0 \<Longrightarrow>
     cci_write_all k ws =
       (ret_of k (length (calls k) + j), k\<lparr>calls := calls k @ map as_call (take (Suc j) ws)\<rparr>)"
proof (induction ws arbitrary: k j)
  case Nil
  then show ?case by simp
next
  case (Cons w ws)
  obtain reg v where w: "w = (reg, v)" by (cases w)
  let ?k1 = "k\<lparr>calls := calls k @ [Cci_write reg v]\<rparr>"
  show ?case
  proof (cases j)
    case 0
    with Cons.prems show ?thesis
      by (simp add: w cci_write_def do_call_def as_call_def)
  next
    case (Suc j')
    with Cons.prems have r0: "ret_of k (length (calls k)) = 0" by auto
    have a: "j' < length ws" using Cons.prems(1) Suc by simp
    have b: "\<forall>i<j'. ret_of ?k1 (length (calls ?k1) + i) = 0"
    proof (intro allI impI)
      fix i assume "i < j'"
      then have "Suc i < j" using Suc by simp
      with Cons.prems(2) have "ret_of k (length (calls k) + Suc i) = 0" by blast
      then show "ret_of ?k1 (length (calls ?k1) + i) = 0" by simp
    qed
    have c: "ret_of ?k1 (length (calls ?k1) + j') \<noteq> 0" using Cons.prems(3) Suc by simp
    from Cons.IH[OF a b c] r0 Suc show ?thesis
      by (simp add: w cci_write_def do_call_def as_call_def)
  qed
qed

lemmas reg_defs = T4KA3_REG_IMG_ORIENTATION_def T4KA3_REG_COARSE_INTEGRATION_TIME_def
  T4KA3_REG_DIGGAIN_GREEN_R_def T4KA3_REG_DIGGAIN_RED_def T4KA3_REG_DIGGAIN_BLUE_def
  T4KA3_REG_DIGGAIN_GREEN_B_def T4KA3_REG_GLOBAL_GAIN_def T4KA3_REG_FRAME_LENGTH_LINES_def
  T4KA3_REG_TEST_PATTERN_MODE_def

lemmas limit_defs = T4KA3_LINES_PER_FRAME_def T4KA3_COARSE_INTEGRATION_TIME_MIN_def
  T4KA3_COARSE_INTEGRATION_TIME_MARGIN_def T4KA3_MAX_EXPOSURE_SUPPORTED_def
  T4KA3_MAX_GLOBAL_GAIN_SUPPORTED_def T4KA3_MIN_GLOBAL_GAIN_SUPPORTED_def

lemma set_exposure_unfold:
  "t4ka3_set_exposure k dev c g dg =
     (case cci_write_all k
        [(CCI_REG16 0x0340, ucast (if 2492 - 6 < unat (min (max c 1) 0xFFF9)
                                   then min (max c 1) 0xFFF9 + 6 else 2492)),
         (CCI_REG16 0x0202, ucast (min (max c 1) 0xFFF9 :: u16)),
         (CCI_REG16 0x0234, ucast (min (max g 0x80) 0x7FF :: u16)),
         (CCI_REG16 0x020e, ucast dg), (CCI_REG16 0x0210, ucast dg),
         (CCI_REG16 0x0212, ucast dg), (CCI_REG16 0x0214, ucast dg)] of
        (ret, k1) \<Rightarrow>
          if ret \<noteq> 0 then (ret, k1, dev)
          else (ret, k1, dev\<lparr>gain := min (max g 0x80) 0x7FF,
                              coarse_itg := min (max c 1) 0xFFF9, digital_gain := dg\<rparr>))"
proof -
  have "(2486 < uint x) = (2486 < unat x)" for x :: u16
    unfolding uint_nat by linarith
  then show ?thesis
    by (simp add: t4ka3_set_exposure_def Let_def clamp_t_u16_def reg_defs limit_defs)
qed

lemma exposure_writes_map:
  "exposure_writes c g dg = map as_call
        [(CCI_REG16 0x0340, ucast (if 2492 - 6 < unat c then c + 6 else 2492)),
         (CCI_REG16 0x0202, ucast c), (CCI_REG16 0x0234, ucast g),
         (CCI_REG16 0x020e, ucast dg), (CCI_REG16 0x0210, ucast dg),
         (CCI_REG16 0x0212, ucast dg), (CCI_REG16 0x0214, ucast dg)]"
  by (simp add: exposure_writes_def as_call_def)

text \<open>
  Claim C5. \<open>__t4ka3_set_exposure\<close> accepts every triple. With \<open>coarse\<close> clamped into
  \<open>[1, 0xFFFF - 6]\<close> and \<open>gain\<close> into \<open>[0x0080, 0x07FF]\<close>, it writes the registers of
  \<open>exposure_writes\<close> in that order. If all seven writes succeed it returns 0 and stores
  the three values in the device; if write \<open>j\<close> is the first to fail, it returns that
  error right after it, with writes \<open>0..j\<close> made, none undone, and the device unchanged.
\<close>

theorem set_exposure_sequence:
  fixes c g dg :: u16
  shows "1 \<le> min (max c 1) (0xFFF9 :: u16) \<and> min (max c 1) (0xFFF9 :: u16) \<le> 0xFFFF - 6
    \<and> 0x0080 \<le> min (max g 0x80) (0x7FF :: u16) \<and> min (max g 0x80) (0x7FF :: u16) \<le> 0x07FF
    \<and> ((\<forall>i<7. ret_of k (length (calls k) + i) = 0) \<longrightarrow>
         t4ka3_set_exposure k dev c g dg =
           (0,
            k\<lparr>calls := calls k @ exposure_writes (min (max c 1) 0xFFF9) (min (max g 0x80) 0x7FF) dg\<rparr>,
            dev\<lparr>gain := min (max g 0x80) 0x7FF, coarse_itg := min (max c 1) 0xFFF9,
                digital_gain := dg\<rparr>))
    \<and> (j < 7 \<and> (\<forall>i<j. ret_of k (length (calls k) + i) = 0)
           \<and> ret_of k (length (calls k) + j) \<noteq> 0 \<longrightarrow>
         t4ka3_set_exposure k dev c g dg =
           (ret_of k (length (calls k) + j),
            k\<lparr>calls := calls k @ take (Suc j)
                 (exposure_writes (min (max c 1) 0xFFF9) (min (max g 0x80) 0x7FF) dg)\<rparr>,
            dev))"
proof (intro conjI impI)
  show "1 \<le> min (max c 1) (0xFFF9 :: u16)" by (simp add: le_max_iff_disj)
  show "min (max c 1) (0xFFF9 :: u16) \<le> 0xFFFF - 6" by (simp add: min_le_iff_disj)
  show "0x0080 \<le> min (max g 0x80) (0x7FF :: u16)" by (simp add: le_max_iff_disj)
  show "min (max g 0x80) (0x7FF :: u16) \<le> 0x07FF" by (simp add: min_le_iff_disj)
next
  assume ok: "\<forall>i<7. ret_of k (length (calls k) + i) = 0"
  show "t4ka3_set_exposure k dev c g dg =
           (0,
            k\<lparr>calls := calls k @ exposure_writes (min (max c 1) 0xFFF9) (min (max g 0x80) 0x7FF) dg\<rparr>,
            dev\<lparr>gain := min (max g 0x80) 0x7FF, coarse_itg := min (max c 1) 0xFFF9,
                digital_gain := dg\<rparr>)"
  proof -
    let ?ws = "[(CCI_REG16 0x0340, ucast (if 2492 - 6 < unat (min (max c 1) 0xFFF9)
                                   then min (max c 1) 0xFFF9 + 6 else 2492)),
         (CCI_REG16 0x0202, ucast (min (max c 1) 0xFFF9 :: u16)),
         (CCI_REG16 0x0234, ucast (min (max g 0x80) 0x7FF :: u16)),
         (CCI_REG16 0x020e, ucast dg), (CCI_REG16 0x0210, ucast dg),
         (CCI_REG16 0x0212, ucast dg), (CCI_REG16 0x0214, ucast dg)] :: (cci_reg \<times> u64) list"
    have run: "cci_write_all k ?ws = (0, k\<lparr>calls := calls k @ map as_call ?ws\<rparr>)"
      by (rule cci_write_all_ok) (use ok in simp)
    show ?thesis
      unfolding set_exposure_unfold run exposure_writes_map by simp
  qed
next
  assume "j < 7 \<and> (\<forall>i<j. ret_of k (length (calls k) + i) = 0)
           \<and> ret_of k (length (calls k) + j) \<noteq> 0"
  then have j: "j < 7" and before: "\<forall>i<j. ret_of k (length (calls k) + i) = 0"
    and at: "ret_of k (length (calls k) + j) \<noteq> 0" by simp_all
  show "t4ka3_set_exposure k dev c g dg =
           (ret_of k (length (calls k) + j),
            k\<lparr>calls := calls k @ take (Suc j)
                 (exposure_writes (min (max c 1) 0xFFF9) (min (max g 0x80) 0x7FF) dg)\<rparr>,
            dev)"
  proof -
    let ?ws = "[(CCI_REG16 0x0340, ucast (if 2492 - 6 < unat (min (max c 1) 0xFFF9)
                                   then min (max c 1) 0xFFF9 + 6 else 2492)),
         (CCI_REG16 0x0202, ucast (min (max c 1) 0xFFF9 :: u16)),
         (CCI_REG16 0x0234, ucast (min (max g 0x80) 0x7FF :: u16)),
         (CCI_REG16 0x020e, ucast dg), (CCI_REG16 0x0210, ucast dg),
         (CCI_REG16 0x0212, ucast dg), (CCI_REG16 0x0214, ucast dg)] :: (cci_reg \<times> u64) list"
    have run: "cci_write_all k ?ws =
        (ret_of k (length (calls k) + j), k\<lparr>calls := calls k @ map as_call (take (Suc j) ?ws)\<rparr>)"
      by (rule cci_write_all_fail) (use j before at in simp_all)
    have tk: "map as_call (take (Suc j) ?ws)
        = take (Suc j) (exposure_writes (min (max c 1) 0xFFF9) (min (max g 0x80) 0x7FF) dg)"
      unfolding exposure_writes_map by (rule take_map[symmetric])
    show ?thesis
      unfolding set_exposure_unfold run tk using at by simp
  qed
qed

theorem set_exposure_sequence_witness:
  "ret_of (kernel_script []) (length (calls (kernel_script [])) + 6) = 0
   \<and> t4ka3_set_exposure (kernel_script []) stopped_sensor 2490 0x0100 0x0100 =
       (0,
        (kernel_script [])\<lparr>calls :=
           [Cci_write (CCI_REG16 0x0340) 2496, Cci_write (CCI_REG16 0x0202) 2490,
            Cci_write (CCI_REG16 0x0234) 0x0100, Cci_write (CCI_REG16 0x020e) 0x0100,
            Cci_write (CCI_REG16 0x0210) 0x0100, Cci_write (CCI_REG16 0x0212) 0x0100,
            Cci_write (CCI_REG16 0x0214) 0x0100]\<rparr>,
        stopped_sensor\<lparr>gain := 0x0100, coarse_itg := 2490, digital_gain := 0x0100\<rparr>)
   \<and> t4ka3_set_exposure (kernel_script []) stopped_sensor 0 0xFFFF 0x0100 =
       (0,
        (kernel_script [])\<lparr>calls :=
           [Cci_write (CCI_REG16 0x0340) 2492, Cci_write (CCI_REG16 0x0202) 1,
            Cci_write (CCI_REG16 0x0234) 0x07FF, Cci_write (CCI_REG16 0x020e) 0x0100,
            Cci_write (CCI_REG16 0x0210) 0x0100, Cci_write (CCI_REG16 0x0212) 0x0100,
            Cci_write (CCI_REG16 0x0214) 0x0100]\<rparr>,
        stopped_sensor\<lparr>gain := 0x07FF, coarse_itg := 1, digital_gain := 0x0100\<rparr>)
   \<and> ret_of (kernel_script [0, 0, - 5]) (length (calls (kernel_script [0, 0, - 5])) + 2) \<noteq> 0
   \<and> t4ka3_set_exposure (kernel_script [0, 0, - 5]) stopped_sensor 2000 0x0100 0x0100 =
       (- 5,
        (kernel_script [0, 0, - 5])\<lparr>calls :=
           [Cci_write (CCI_REG16 0x0340) 2492, Cci_write (CCI_REG16 0x0202) 2000,
            Cci_write (CCI_REG16 0x0234) 0x0100]\<rparr>,
        stopped_sensor)"
proof -
  have ok: "\<forall>i<7. ret_of (kernel_script []) (length (calls (kernel_script [])) + i) = 0"
    by (simp add: kernel_script_def)
  have fl: "(2::nat) < 7 \<and>
      (\<forall>i<2. ret_of (kernel_script [0, 0, - 5]) (length (calls (kernel_script [0, 0, - 5])) + i) = 0)
      \<and> ret_of (kernel_script [0, 0, - 5]) (length (calls (kernel_script [0, 0, - 5])) + 2) \<noteq> 0"
    by (simp add: kernel_script_def less_Suc_eq numeral_2_eq_2)
  have e1: "exposure_writes (min (max 2490 1) 0xFFF9) (min (max 0x0100 0x80) 0x7FF) 0x0100 =
           [Cci_write (CCI_REG16 0x0340) 2496, Cci_write (CCI_REG16 0x0202) 2490,
            Cci_write (CCI_REG16 0x0234) 0x0100, Cci_write (CCI_REG16 0x020e) 0x0100,
            Cci_write (CCI_REG16 0x0210) 0x0100, Cci_write (CCI_REG16 0x0212) 0x0100,
            Cci_write (CCI_REG16 0x0214) 0x0100]"
    by (simp add: exposure_writes_def)
  have e2: "exposure_writes (min (max 0 1) 0xFFF9) (min (max 0xFFFF 0x80) 0x7FF) 0x0100 =
           [Cci_write (CCI_REG16 0x0340) 2492, Cci_write (CCI_REG16 0x0202) 1,
            Cci_write (CCI_REG16 0x0234) 0x07FF, Cci_write (CCI_REG16 0x020e) 0x0100,
            Cci_write (CCI_REG16 0x0210) 0x0100, Cci_write (CCI_REG16 0x0212) 0x0100,
            Cci_write (CCI_REG16 0x0214) 0x0100]"
    by (simp add: exposure_writes_def)
  have e3: "take (Suc 2) (exposure_writes (min (max 2000 1) 0xFFF9) (min (max 0x0100 0x80) 0x7FF) 0x0100) =
           [Cci_write (CCI_REG16 0x0340) 2492, Cci_write (CCI_REG16 0x0202) 2000,
            Cci_write (CCI_REG16 0x0234) 0x0100]"
    by (simp add: exposure_writes_def)
  have m: "min (max 2490 1) (0xFFF9::u16) = 2490" "min (max 0x0100 0x80) (0x7FF::u16) = 0x0100"
    "min (max 0 1) (0xFFF9::u16) = 1" "min (max 0xFFFF 0x80) (0x7FF::u16) = 0x7FF"
    by simp_all
  have c0: "calls (kernel_script []) = []" "calls (kernel_script [0, 0, - 5]) = []"
    by (simp_all add: kernel_script_def)
  have r5: "ret_of (kernel_script [0, 0, - 5]) (Suc (Suc 0)) = - 5"
    by (simp add: kernel_script_def)
  have a: "t4ka3_set_exposure (kernel_script []) stopped_sensor 2490 0x0100 0x0100 =
       (0, (kernel_script [])\<lparr>calls := calls (kernel_script []) @
           [Cci_write (CCI_REG16 0x0340) 2496, Cci_write (CCI_REG16 0x0202) 2490,
            Cci_write (CCI_REG16 0x0234) 0x0100, Cci_write (CCI_REG16 0x020e) 0x0100,
            Cci_write (CCI_REG16 0x0210) 0x0100, Cci_write (CCI_REG16 0x0212) 0x0100,
            Cci_write (CCI_REG16 0x0214) 0x0100]\<rparr>,
        stopped_sensor\<lparr>gain := 0x0100, coarse_itg := 2490, digital_gain := 0x0100\<rparr>)"
    using set_exposure_sequence[where c = "2490" and g = "0x0100" and dg = "0x0100"
        and k = "kernel_script []" and dev = stopped_sensor and j = 0,
        unfolded e1] ok
    unfolding m by blast
  have b: "t4ka3_set_exposure (kernel_script []) stopped_sensor 0 0xFFFF 0x0100 =
       (0, (kernel_script [])\<lparr>calls := calls (kernel_script []) @
           [Cci_write (CCI_REG16 0x0340) 2492, Cci_write (CCI_REG16 0x0202) 1,
            Cci_write (CCI_REG16 0x0234) 0x07FF, Cci_write (CCI_REG16 0x020e) 0x0100,
            Cci_write (CCI_REG16 0x0210) 0x0100, Cci_write (CCI_REG16 0x0212) 0x0100,
            Cci_write (CCI_REG16 0x0214) 0x0100]\<rparr>,
        stopped_sensor\<lparr>gain := 0x07FF, coarse_itg := 1, digital_gain := 0x0100\<rparr>)"
    using set_exposure_sequence[where c = "0" and g = "0xFFFF" and dg = "0x0100"
        and k = "kernel_script []" and dev = stopped_sensor and j = 0,
        unfolded e2] ok
    unfolding m by blast
  have c: "t4ka3_set_exposure (kernel_script [0, 0, - 5]) stopped_sensor 2000 0x0100 0x0100 =
       (ret_of (kernel_script [0, 0, - 5]) (length (calls (kernel_script [0, 0, - 5])) + 2),
        (kernel_script [0, 0, - 5])\<lparr>calls := calls (kernel_script [0, 0, - 5]) @
           [Cci_write (CCI_REG16 0x0340) 2492, Cci_write (CCI_REG16 0x0202) 2000,
            Cci_write (CCI_REG16 0x0234) 0x0100]\<rparr>,
        stopped_sensor)"
    using set_exposure_sequence[where c = "2000" and g = "0x0100" and dg = "0x0100"
        and k = "kernel_script [0, 0, - 5]" and dev = stopped_sensor and j = 2,
        unfolded e3] fl
    by blast
  from a b c ok fl show ?thesis
    by (simp add: c0 r5)
qed

section \<open>Controls while the device is not powered\<close>

lemma set_bayer_order_height:
  "height (t4ka3_set_bayer_order s f) = height f"
  by (simp add: t4ka3_set_bayer_order_def Let_def)

lemma s_stream_replay:
  assumes c: "ctrls sensor =
        \<lparr>vflip = Some \<lparr>cid = V4L2_CID_VFLIP, cval = vf\<rparr>,
         hflip = Some \<lparr>cid = V4L2_CID_HFLIP, cval = hf\<rparr>,
         test_pattern = \<lparr>cid = V4L2_CID_TEST_PATTERN, cval = tp\<rparr>,
         vblank = \<lparr>cid = V4L2_CID_VBLANK, cval = vb\<rparr>,
         exposure = \<lparr>cid = V4L2_CID_EXPOSURE, cval = ex\<rparr>\<rparr>"
    and s: "streaming sensor = 0"
    and ok: "all_succeed k (stream_on_calls (res sensor) (height (format sensor)) vf hf tp vb ex)"
  shows "fst (t4ka3_s_stream ret_entry k sensor 1) = 0
     \<and> calls (fst (snd (t4ka3_s_stream ret_entry k sensor 1)))
         = calls k @ stream_on_calls (res sensor) (height (format sensor)) vf hf tp vb ex
     \<and> streaming (snd (snd (t4ka3_s_stream ret_entry k sensor 1))) = 1
     \<and> ctrls (snd (snd (t4ka3_s_stream ret_entry k sensor 1))) = ctrls sensor"
  using ok s
  by (simp add: stream_on_calls_def succeeds_def t4ka3_s_stream_def t4ka3_stream_on_def
      handler_def c t4ka3_s_ctrl_def t4ka3_s_ctrl_apply_def t4ka3_t_vflip_def t4ka3_t_hflip_def
      t4ka3_test_pattern_def t4ka3_update_exposure_range_def kernel_defs reg_defs
      T4KA3_HFLIP_BIT_def T4KA3_VFLIP_BIT_def T4KA3_COARSE_INTEGRATION_TIME_MARGIN_def Let_def
      signed_eq_0_iff set_bayer_order_height)

text \<open>
  Claim C10. When \<open>t4ka3_s_ctrl\<close> reaches \<open>pm_runtime_get_if_in_use\<close> and that returns 0
  (for \<open>V4L2_CID_VBLANK\<close> the exposure range is updated first, and the call only gets
  there when that update succeeded), it returns 0 after these kernel calls and no other:
  no register access; the only change to the sensor is the format's code, recomputed
  from the flip controls. The values that the controls hold reach the hardware at the
  next stream-enable that succeeds. With the five controls of \<open>t4ka3_init_controls\<close> in
  the handler, the sensor stopped and every kernel call succeeding, \<open>t4ka3_s_stream\<close> on
  the sensor as the control call left it returns 0 after the calls of \<open>stream_on_calls\<close>
  and no other: between the mode registers and the release of the group hold the
  controls are replayed, each with the device found in use and its value written to its
  register. The sensor is left streaming and its controls are as they were.
\<close>

theorem s_ctrl_not_powered:
  "((cid ctrl = V4L2_CID_VBLANK \<longrightarrow> ret_of k (length (calls k)) = 0)
     \<and> ret_of k (length (calls k) + (if cid ctrl = V4L2_CID_VBLANK then 1 else 0)) = 0 \<longrightarrow>
     t4ka3_s_ctrl k sensor ctrl =
       (0,
        k\<lparr>calls := calls k @
             (if cid ctrl = V4L2_CID_VBLANK
              then [V4l2_ctrl_modify_range V4L2_CID_EXPOSURE 0
                      (sint (height (format sensor) + cval (vblank (ctrls sensor)) - 6)) 1
                      (sint (height (format sensor) + cval (vblank (ctrls sensor)) - 6))]
              else [])
             @ [Pm_runtime_get_if_in_use]\<rparr>,
        sensor\<lparr>format := t4ka3_set_bayer_order sensor (format sensor)\<rparr>))
   \<and> (ctrls sensor =
        \<lparr>vflip = Some \<lparr>cid = V4L2_CID_VFLIP, cval = vf\<rparr>,
         hflip = Some \<lparr>cid = V4L2_CID_HFLIP, cval = hf\<rparr>,
         test_pattern = \<lparr>cid = V4L2_CID_TEST_PATTERN, cval = tp\<rparr>,
         vblank = \<lparr>cid = V4L2_CID_VBLANK, cval = vb\<rparr>,
         exposure = \<lparr>cid = V4L2_CID_EXPOSURE, cval = ex\<rparr>\<rparr>
      \<and> streaming sensor = 0
      \<and> all_succeed k2 (stream_on_calls (res sensor) (height (format sensor)) vf hf tp vb ex) \<longrightarrow>
      fst (t4ka3_s_stream ret_entry k2
             (sensor\<lparr>format := t4ka3_set_bayer_order sensor (format sensor)\<rparr>) 1) = 0
      \<and> calls (fst (snd (t4ka3_s_stream ret_entry k2
             (sensor\<lparr>format := t4ka3_set_bayer_order sensor (format sensor)\<rparr>) 1)))
         = calls k2 @ stream_on_calls (res sensor) (height (format sensor)) vf hf tp vb ex
      \<and> streaming (snd (snd (t4ka3_s_stream ret_entry k2
             (sensor\<lparr>format := t4ka3_set_bayer_order sensor (format sensor)\<rparr>) 1))) = 1
      \<and> ctrls (snd (snd (t4ka3_s_stream ret_entry k2
             (sensor\<lparr>format := t4ka3_set_bayer_order sensor (format sensor)\<rparr>) 1)))
         = ctrls sensor)"
proof (intro conjI impI)
  assume h: "(cid ctrl = V4L2_CID_VBLANK \<longrightarrow> ret_of k (length (calls k)) = 0)
     \<and> ret_of k (length (calls k) + (if cid ctrl = V4L2_CID_VBLANK then 1 else 0)) = 0"
  show "t4ka3_s_ctrl k sensor ctrl =
       (0,
        k\<lparr>calls := calls k @
             (if cid ctrl = V4L2_CID_VBLANK
              then [V4l2_ctrl_modify_range V4L2_CID_EXPOSURE 0
                      (sint (height (format sensor) + cval (vblank (ctrls sensor)) - 6)) 1
                      (sint (height (format sensor) + cval (vblank (ctrls sensor)) - 6))]
              else [])
             @ [Pm_runtime_get_if_in_use]\<rparr>,
        sensor\<lparr>format := t4ka3_set_bayer_order sensor (format sensor)\<rparr>)"
  proof (cases "cid ctrl = V4L2_CID_VBLANK")
    case True
    with h show ?thesis
      by (simp add: t4ka3_s_ctrl_def t4ka3_update_exposure_range_def kernel_defs Let_def
          T4KA3_COARSE_INTEGRATION_TIME_MARGIN_def)
  next
    case False
    with h show ?thesis
      by (simp add: t4ka3_s_ctrl_def kernel_defs)
  qed
next
  let ?s = "sensor\<lparr>format := t4ka3_set_bayer_order sensor (format sensor)\<rparr>"
  assume a: "ctrls sensor =
        \<lparr>vflip = Some \<lparr>cid = V4L2_CID_VFLIP, cval = vf\<rparr>,
         hflip = Some \<lparr>cid = V4L2_CID_HFLIP, cval = hf\<rparr>,
         test_pattern = \<lparr>cid = V4L2_CID_TEST_PATTERN, cval = tp\<rparr>,
         vblank = \<lparr>cid = V4L2_CID_VBLANK, cval = vb\<rparr>,
         exposure = \<lparr>cid = V4L2_CID_EXPOSURE, cval = ex\<rparr>\<rparr>
      \<and> streaming sensor = 0
      \<and> all_succeed k2 (stream_on_calls (res sensor) (height (format sensor)) vf hf tp vb ex)"
  then have c: "ctrls ?s =
        \<lparr>vflip = Some \<lparr>cid = V4L2_CID_VFLIP, cval = vf\<rparr>,
         hflip = Some \<lparr>cid = V4L2_CID_HFLIP, cval = hf\<rparr>,
         test_pattern = \<lparr>cid = V4L2_CID_TEST_PATTERN, cval = tp\<rparr>,
         vblank = \<lparr>cid = V4L2_CID_VBLANK, cval = vb\<rparr>,
         exposure = \<lparr>cid = V4L2_CID_EXPOSURE, cval = ex\<rparr>\<rparr>"
    and s: "streaming ?s = 0"
    and ok: "all_succeed k2 (stream_on_calls (res ?s) (height (format ?s)) vf hf tp vb ex)"
    by (simp_all add: set_bayer_order_height)
  have r: "res ?s = res sensor" "height (format ?s) = height (format sensor)"
    "ctrls ?s = ctrls sensor"
    by (simp_all add: set_bayer_order_height)
  note run = s_stream_replay[OF c s ok, of ret_entry, unfolded r]
  from run show "fst (t4ka3_s_stream ret_entry k2 ?s 1) = 0" by (rule conjunct1)
  from run show "calls (fst (snd (t4ka3_s_stream ret_entry k2 ?s 1)))
         = calls k2 @ stream_on_calls (res sensor) (height (format sensor)) vf hf tp vb ex"
    by (rule conjunct2[THEN conjunct1])
  from run show "streaming (snd (snd (t4ka3_s_stream ret_entry k2 ?s 1))) = 1"
    by (rule conjunct2[THEN conjunct2, THEN conjunct1])
  from run show "ctrls (snd (snd (t4ka3_s_stream ret_entry k2 ?s 1))) = ctrls sensor"
    by (rule conjunct2[THEN conjunct2, THEN conjunct2])
qed


theorem s_ctrl_not_powered_witness:
  "ret_of (kernel_script [0, 0, 0, 0, 0, 1, 0, 0, 1, 0, 0, 1, 0, 0, 0, 1, 0, 0, 1, 0, 0, 0, 0]) 0 = 0
   \<and> t4ka3_s_ctrl
         (kernel_script [0, 0, 0, 0, 0, 1, 0, 0, 1, 0, 0, 1, 0, 0, 0, 1, 0, 0, 1, 0, 0, 0, 0])
         stopped_sensor \<lparr>cid = V4L2_CID_HFLIP, cval = 1\<rparr> =
       (0,
        (kernel_script [0, 0, 0, 0, 0, 1, 0, 0, 1, 0, 0, 1, 0, 0, 0, 1, 0, 0, 1, 0, 0, 0, 0])
          \<lparr>calls := [Pm_runtime_get_if_in_use]\<rparr>,
        stopped_sensor\<lparr>format := \<lparr>width = 736, height = 496,
                                     code = MEDIA_BUS_FMT_SRGGB10_1X10\<rparr>\<rparr>)
   \<and> hflip (ctrls stopped_sensor) = Some \<lparr>cid = V4L2_CID_HFLIP, cval = 1\<rparr>
   \<and> streaming stopped_sensor = 0
   \<and> fst (t4ka3_s_stream 0
         ((kernel_script [0, 0, 0, 0, 0, 1, 0, 0, 1, 0, 0, 1, 0, 0, 0, 1, 0, 0, 1, 0, 0, 0, 0])
            \<lparr>calls := [Pm_runtime_get_if_in_use]\<rparr>)
         (stopped_sensor\<lparr>format := \<lparr>width = 736, height = 496,
                                      code = MEDIA_BUS_FMT_SRGGB10_1X10\<rparr>\<rparr>) 1) = 0
   \<and> calls (fst (snd (t4ka3_s_stream 0
         ((kernel_script [0, 0, 0, 0, 0, 1, 0, 0, 1, 0, 0, 1, 0, 0, 0, 1, 0, 0, 1, 0, 0, 0, 0])
            \<lparr>calls := [Pm_runtime_get_if_in_use]\<rparr>)
         (stopped_sensor\<lparr>format := \<lparr>width = 736, height = 496,
                                      code = MEDIA_BUS_FMT_SRGGB10_1X10\<rparr>\<rparr>) 1))) =
       [Pm_runtime_get_if_in_use,
        Pm_runtime_get_sync,
        Cci_multi_reg_write T4ka3_init_config,
        Cci_multi_reg_write T4ka3_param_hold,
        Cci_multi_reg_write (Res_regs 0),
        Pm_runtime_get_if_in_use, Cci_update_bits (CCI_REG8 0x0101) 2 0, Pm_runtime_put,
        Pm_runtime_get_if_in_use, Cci_update_bits (CCI_REG8 0x0101) 1 1, Pm_runtime_put,
        Pm_runtime_get_if_in_use, Cci_write (CCI_REG8 0x0601) 2, Pm_runtime_put,
        V4l2_ctrl_modify_range V4L2_CID_EXPOSURE 0 2486 1 2486,
        Pm_runtime_get_if_in_use, Cci_write (CCI_REG16 0x0340) 2492, Pm_runtime_put,
        Pm_runtime_get_if_in_use, Cci_write (CCI_REG16 0x0202) 2486, Pm_runtime_put,
        Cci_multi_reg_write T4ka3_param_update,
        Cci_multi_reg_write T4ka3_streaming]
   \<and> streaming (snd (snd (t4ka3_s_stream 0
         ((kernel_script [0, 0, 0, 0, 0, 1, 0, 0, 1, 0, 0, 1, 0, 0, 0, 1, 0, 0, 1, 0, 0, 0, 0])
            \<lparr>calls := [Pm_runtime_get_if_in_use]\<rparr>)
         (stopped_sensor\<lparr>format := \<lparr>width = 736, height = 496,
                                      code = MEDIA_BUS_FMT_SRGGB10_1X10\<rparr>\<rparr>) 1))) = 1"
proof -
  define k where
    "k = kernel_script [0, 0, 0, 0, 0, 1, 0, 0, 1, 0, 0, 1, 0, 0, 0, 1, 0, 0, 1, 0, 0, 0, 0]"
  define k2 where "k2 = k\<lparr>calls := [Pm_runtime_get_if_in_use]\<rparr>"
  have c0: "calls k = []" by (simp add: k_def kernel_script_def)
  have r0: "ret_of k 0 = 0" by (simp add: k_def kernel_script_def)
  have off: "(cid \<lparr>cid = V4L2_CID_HFLIP, cval = 1\<rparr> = V4L2_CID_VBLANK \<longrightarrow>
        ret_of k (length (calls k)) = 0)
     \<and> ret_of k (length (calls k)
          + (if cid \<lparr>cid = V4L2_CID_HFLIP, cval = 1\<rparr> = V4L2_CID_VBLANK then 1 else 0)) = 0"
    by (simp add: c0 r0)
  have bo: "t4ka3_set_bayer_order stopped_sensor (format stopped_sensor)
      = \<lparr>width = 736, height = 496, code = MEDIA_BUS_FMT_SRGGB10_1X10\<rparr>"
    by (simp add: t4ka3_set_bayer_order_def stopped_sensor_def ctrl_set_def
        t4ka3_hv_flip_bayer_order_def)
  have cs: "ctrls stopped_sensor =
        \<lparr>vflip = Some \<lparr>cid = V4L2_CID_VFLIP, cval = 0\<rparr>,
         hflip = Some \<lparr>cid = V4L2_CID_HFLIP, cval = 1\<rparr>,
         test_pattern = \<lparr>cid = V4L2_CID_TEST_PATTERN, cval = 2\<rparr>,
         vblank = \<lparr>cid = V4L2_CID_VBLANK, cval = 1996\<rparr>,
         exposure = \<lparr>cid = V4L2_CID_EXPOSURE, cval = 2486\<rparr>\<rparr>"
    by (simp add: stopped_sensor_def)
  have st: "streaming stopped_sensor = 0" by (simp add: stopped_sensor_def)
  have tr: "stream_on_calls (res stopped_sensor) (height (format stopped_sensor)) 0 1 2 1996 2486 =
       [Pm_runtime_get_sync,
        Cci_multi_reg_write T4ka3_init_config,
        Cci_multi_reg_write T4ka3_param_hold,
        Cci_multi_reg_write (Res_regs 0),
        Pm_runtime_get_if_in_use, Cci_update_bits (CCI_REG8 0x0101) 2 0, Pm_runtime_put,
        Pm_runtime_get_if_in_use, Cci_update_bits (CCI_REG8 0x0101) 1 1, Pm_runtime_put,
        Pm_runtime_get_if_in_use, Cci_write (CCI_REG8 0x0601) 2, Pm_runtime_put,
        V4l2_ctrl_modify_range V4L2_CID_EXPOSURE 0 2486 1 2486,
        Pm_runtime_get_if_in_use, Cci_write (CCI_REG16 0x0340) 2492, Pm_runtime_put,
        Pm_runtime_get_if_in_use, Cci_write (CCI_REG16 0x0202) 2486, Pm_runtime_put,
        Cci_multi_reg_write T4ka3_param_update,
        Cci_multi_reg_write T4ka3_streaming]"
    by (simp add: stream_on_calls_def stopped_sensor_def)
  have ok: "all_succeed k2
      (stream_on_calls (res stopped_sensor) (height (format stopped_sensor)) 0 1 2 1996 2486)"
    unfolding tr by (simp add: k2_def k_def kernel_script_def succeeds_def)
  have hf: "hflip (ctrls stopped_sensor) = Some \<lparr>cid = V4L2_CID_HFLIP, cval = 1\<rparr>"
    by (simp add: cs)
  note first = s_ctrl_not_powered[where k = k and sensor = stopped_sensor
        and ctrl = "\<lparr>cid = V4L2_CID_HFLIP, cval = 1\<rparr>", THEN conjunct1, rule_format, OF off]
  note second = s_ctrl_not_powered[where sensor = stopped_sensor and ?k2.0 = k2
        and vf = 0 and hf = 1 and tp = 2 and vb = 1996 and ex = 2486 and ret_entry = 0,
        THEN conjunct2, rule_format, OF conjI[OF cs conjI[OF st ok]]]
  have c2: "calls k2 = [Pm_runtime_get_if_in_use]" by (simp add: k2_def)
  from first second r0 hf st show ?thesis
    unfolding bo tr c2 k2_def[symmetric] k_def[symmetric]
    by (simp add: c0 k2_def)
qed

section \<open>Mode selection\<close>

lemma ratio_ge:
  fixes w :: u32
  assumes W: "0 \<le> W" "W < 2 ^ 19" and w: "w \<noteq> 0"
    and r: "\<not> (word_of_int (push_bit 13 W) :: u32) div w < 8192"
  shows "uint w \<le> W"
proof -
  define X where "X = push_bit 13 W"
  have X: "X = W * 8192" by (simp add: X_def push_bit_eq_mult)
  have b: "0 \<le> X" "X < 2 ^ 32" using W by (simp_all add: X)
  have "uint (word_of_int X :: u32) = take_bit 32 X"
    by (simp add: uint_word_of_int_eq)
  also have "\<dots> = X" using b by (simp add: take_bit_int_eq_self)
  finally have ui: "uint (word_of_int X :: u32) = X" .
  have u: "unat (word_of_int X :: u32) = nat X"
    unfolding unat_eq_nat_uint ui ..
  have "8192 \<le> (word_of_int X :: u32) div w"
    using r unfolding X_def by (simp only: not_less)
  then have "unat (8192 :: u32) \<le> unat ((word_of_int X :: u32) div w)"
    by (simp only: word_le_nat_alt)
  then have "8192 \<le> unat (word_of_int X :: u32) div unat w"
    unfolding unat_div by simp
  then have q: "8192 \<le> nat X div unat w" unfolding u .
  have "8192 * unat w \<le> nat X div unat w * unat w"
    using q by (rule mult_le_mono1)
  also have "\<dots> \<le> nat X" by (rule div_times_less_eq_dividend)
  finally have "8192 * unat w \<le> nat X" .
  moreover have "nat X = nat W * 8192" using W unfolding X by (simp add: nat_mult_distrib)
  ultimately have "unat w \<le> nat W" by simp
  then have "int (unat w) \<le> W" using W by linarith
  then show ?thesis unfolding uint_nat .
qed

lemma distance_None: "(distance r w h = None) = (w = 0)"
  by (simp add: distance_def Let_def)

lemma distance_fits:
  assumes d: "distance r w h = Some d" and n: "d \<noteq> - 1" and s: "shiftable r"
  shows "fits r w h"
proof -
  from d n have w: "w \<noteq> 0" and h: "h \<noteq> 0"
    and rw: "\<not> (word_of_int (push_bit 13 (res_width r)) :: u32) div w < 8192"
    and rh: "\<not> (word_of_int (push_bit 13 (res_height r)) :: u32) div h < 8192"
    by (auto simp: distance_def Let_def EPERM_def split: if_splits)
  from s have b: "0 \<le> res_width r" "res_width r < 2 ^ 19" "0 \<le> res_height r"
    "res_height r < 2 ^ 19" by (simp_all add: shiftable_def)
  show ?thesis
    unfolding fits_def using ratio_ge[OF b(1,2) w rw] ratio_ge[OF b(3,4) h rh] by simp
qed

lemma loop_total:
  "w \<noteq> 0 \<Longrightarrow> \<exists>out. nearest_resolution_loop rs w h i idx md = Some out"
proof (induction rs arbitrary: i idx md)
  case Nil
  then show ?case by simp
next
  case (Cons r rs)
  then obtain d where "distance r w h = Some d"
    using distance_None[of r w h] by (cases "distance r w h") auto
  with Cons show ?case by simp
qed

lemma loop_selects:
  assumes "nearest_resolution_loop rs w h i idx md = Some out"
    and "tbl = pre @ rs" and "i = int (length pre)"
    and "idx = - 1 \<or> (0 \<le> idx \<and> nat idx < length tbl \<and> fits (tbl ! nat idx) w h)"
    and "list_all shiftable rs"
  shows "out = - 1 \<or> (0 \<le> out \<and> nat out < length tbl \<and> fits (tbl ! nat out) w h)"
  using assms
proof (induction rs arbitrary: pre i idx md)
  case Nil
  then show ?case by simp
next
  case (Cons r rs)
  from Cons.prems(1) obtain d where d: "distance r w h = Some d"
    by (cases "distance r w h") auto
  have tbl: "tbl = (pre @ [r]) @ rs" using Cons.prems(2) by simp
  have i1: "i + 1 = int (length (pre @ [r]))" using Cons.prems(3) by simp
  have sh: "list_all shiftable rs" and shr: "shiftable r" using Cons.prems(5) by simp_all
  show ?case
  proof (cases "d = - 1")
    case True
    with d Cons.prems(1) have "nearest_resolution_loop rs w h (i + 1) idx md = Some out" by simp
    from Cons.IH[OF this tbl i1 Cons.prems(4) sh] show ?thesis .
  next
    case nf: False
    show ?thesis
    proof (cases "d < md")
      case True
      with nf d Cons.prems(1) have run: "nearest_resolution_loop rs w h (i + 1) i d = Some out"
        by simp
      have "fits r w h" using distance_fits[OF d nf shr] .
      then have "i = - 1 \<or> (0 \<le> i \<and> nat i < length tbl \<and> fits (tbl ! nat i) w h)"
        using Cons.prems(2,3) by (simp add: nth_append)
      from Cons.IH[OF run tbl i1 this sh] show ?thesis .
    next
      case False
      with nf d Cons.prems(1) have "nearest_resolution_loop rs w h (i + 1) idx md = Some out"
        by simp
      from Cons.IH[OF this tbl i1 Cons.prems(4) sh] show ?thesis .
    qed
  qed
qed

lemma res_shiftable: "list_all shiftable t4ka3_res"
  by (simp add: t4ka3_res_def t4ka3_res_preview_def shiftable_def)

lemma res_bounded: "list_all (\<lambda>r. res_width r \<le> 3280 \<and> res_height r \<le> 2464) t4ka3_res"
  by (simp add: t4ka3_res_def t4ka3_res_preview_def)

lemma res_last:
  "res_width (t4ka3_res ! nat (N_RES - 1)) = 3280"
  "res_height (t4ka3_res ! nat (N_RES - 1)) = 2464"
  by (simp_all add: t4ka3_res_def t4ka3_res_preview_def N_RES_def)

lemma word_le_of_fits:
  fixes w :: u32
  assumes "uint w \<le> W" "W < 2 ^ 19"
  shows "w \<le> word_of_int W"
proof -
  have "0 \<le> W" using assms(1) uint_ge_0[of w] by linarith
  then have "uint (word_of_int W :: u32) = W"
    using assms(2) by (simp add: uint_word_of_int_eq take_bit_int_eq_self)
  then show ?thesis using assms(1) by (simp add: word_le_def)
qed

lemma max_as_int:
  fixes w :: u32
  shows "(w > T4KA3_RES_WIDTH_MAX) = (3280 < uint w)" "(w > T4KA3_RES_HEIGHT_MAX) = (2464 < uint w)"
  by (simp_all add: T4KA3_RES_WIDTH_MAX_def T4KA3_RES_HEIGHT_MAX_def word_less_def)

text \<open>
  Claim C8. A request of width 0 and height 100 makes \<open>distance\<close> divide by zero, on
  its first line, before any check: \<open>__t4ka3_try_mbus_fmt\<close> returns no mode, though each of
  the four entries of the catalog is at least as large as the request. That happens for
  width 0 with a height of at most 2464 and for no other request. For every other request
  the result is the request with width, height and code of an entry of the catalog; it is
  at least as large as the request in both dimensions when some entry is, and 3280 by
  2464, the largest entry, when none is: no entry is wider or higher.
\<close>

theorem try_mbus_fmt_zero_width:
  "t4ka3_try_mbus_fmt (request 0 100) = None
   \<and> list_all (\<lambda>r. fits r (width (request 0 100)) (height (request 0 100))) t4ka3_res
   \<and> (t4ka3_try_mbus_fmt fmt = None) = (width fmt = 0 \<and> height fmt \<le> T4KA3_RES_HEIGHT_MAX)
   \<and> (case t4ka3_try_mbus_fmt fmt of
        None \<Rightarrow> width fmt = 0
      | Some fmt' \<Rightarrow>
          (\<exists>r \<in> set t4ka3_res.
              fmt' = fmt\<lparr>width := word_of_int (res_width r),
                         height := word_of_int (res_height r), code := res_code r\<rparr>)
          \<and> (if \<exists>r \<in> set t4ka3_res. fits r (width fmt) (height fmt)
               then width fmt \<le> width fmt' \<and> height fmt \<le> height fmt'
               else width fmt' = 3280 \<and> height fmt' = 2464))
   \<and> list_all (\<lambda>r. res_width r \<le> 3280 \<and> res_height r \<le> 2464) t4ka3_res"
proof -
  have zero: "t4ka3_try_mbus_fmt (request 0 100) = None"
    by (simp add: t4ka3_try_mbus_fmt_def request_def nearest_resolution_index_def
        t4ka3_res_def t4ka3_res_preview_def distance_def T4KA3_RES_WIDTH_MAX_def
        T4KA3_RES_HEIGHT_MAX_def)
  have allfit: "list_all (\<lambda>r. fits r (width (request 0 100)) (height (request 0 100))) t4ka3_res"
    by (simp add: request_def fits_def t4ka3_res_def t4ka3_res_preview_def)
  have last_in: "t4ka3_res ! nat (N_RES - 1) \<in> set t4ka3_res"
    by (simp add: t4ka3_res_def t4ka3_res_preview_def N_RES_def)
  have last_code: "res_code (t4ka3_res ! nat (N_RES - 1)) = MEDIA_BUS_FMT_SGRBG10_1X10"
    by (simp add: t4ka3_res_def t4ka3_res_preview_def N_RES_def)
  have main: "(t4ka3_try_mbus_fmt fmt = None) = (width fmt = 0 \<and> height fmt \<le> T4KA3_RES_HEIGHT_MAX)
   \<and> (case t4ka3_try_mbus_fmt fmt of
        None \<Rightarrow> width fmt = 0
      | Some fmt' \<Rightarrow>
          (\<exists>r \<in> set t4ka3_res.
              fmt' = fmt\<lparr>width := word_of_int (res_width r),
                         height := word_of_int (res_height r), code := res_code r\<rparr>)
          \<and> (if \<exists>r \<in> set t4ka3_res. fits r (width fmt) (height fmt)
               then width fmt \<le> width fmt' \<and> height fmt \<le> height fmt'
               else width fmt' = 3280 \<and> height fmt' = 2464))"
  proof (cases "width fmt > T4KA3_RES_WIDTH_MAX \<or> height fmt > T4KA3_RES_HEIGHT_MAX")
    case True
    then have big: "3280 < uint (width fmt) \<or> 2464 < uint (height fmt)"
      by (simp add: max_as_int)
    have run: "t4ka3_try_mbus_fmt fmt =
        Some (fmt\<lparr>width := T4KA3_RES_WIDTH_MAX, height := T4KA3_RES_HEIGHT_MAX,
                   code := MEDIA_BUS_FMT_SGRBG10_1X10\<rparr>)"
      using True by (simp add: t4ka3_try_mbus_fmt_def)
    have none: "\<not> (\<exists>r \<in> set t4ka3_res. fits r (width fmt) (height fmt))"
      using big res_bounded by (auto simp: list_all_iff fits_def)
    have nz: "\<not> (width fmt = 0 \<and> height fmt \<le> T4KA3_RES_HEIGHT_MAX)"
      using True by (auto simp: T4KA3_RES_WIDTH_MAX_def not_le)
    have cat: "\<exists>r \<in> set t4ka3_res.
        fmt\<lparr>width := T4KA3_RES_WIDTH_MAX, height := T4KA3_RES_HEIGHT_MAX,
            code := MEDIA_BUS_FMT_SGRBG10_1X10\<rparr>
        = fmt\<lparr>width := word_of_int (res_width r),
              height := word_of_int (res_height r), code := res_code r\<rparr>"
      using last_in res_last last_code
      by (intro bexI[of _ "t4ka3_res ! nat (N_RES - 1)"])
         (simp_all add: T4KA3_RES_WIDTH_MAX_def T4KA3_RES_HEIGHT_MAX_def)
    show ?thesis
      unfolding run using none nz cat
      by (simp add: T4KA3_RES_WIDTH_MAX_def T4KA3_RES_HEIGHT_MAX_def)
  next
    case False
    then have hle: "height fmt \<le> T4KA3_RES_HEIGHT_MAX" by (simp add: not_less)
    from False have small: "uint (width fmt) \<le> 3280" "uint (height fmt) \<le> 2464"
      by (simp_all add: max_as_int not_less)
    show ?thesis
    proof (cases "width fmt = 0")
      case True
      have "nearest_resolution_index (width fmt) (height fmt) = None"
        using True
        by (simp add: nearest_resolution_index_def t4ka3_res_def t4ka3_res_preview_def
            distance_def)
      then have "t4ka3_try_mbus_fmt fmt = None"
        using False by (simp add: t4ka3_try_mbus_fmt_def)
      then show ?thesis using True hle by simp
    next
      case nz: False
      obtain idx0 where idx0: "nearest_resolution_index (width fmt) (height fmt) = Some idx0"
        using loop_total[OF nz] unfolding nearest_resolution_index_def by blast
      then have "nearest_resolution_loop t4ka3_res (width fmt) (height fmt) 0 (- 1) INT_MAX
          = Some idx0"
        by (simp add: nearest_resolution_index_def)
      from loop_selects[OF this, of t4ka3_res "[]"] res_shiftable
      have sel: "idx0 = - 1 \<or> (0 \<le> idx0 \<and> nat idx0 < length t4ka3_res
                  \<and> fits (t4ka3_res ! nat idx0) (width fmt) (height fmt))"
        by simp
      define idx where "idx = (if idx0 = - 1 then N_RES - 1 else idx0)"
      define r where "r = t4ka3_res ! nat idx"
      have run: "t4ka3_try_mbus_fmt fmt =
          Some (fmt\<lparr>width := word_of_int (res_width r), height := word_of_int (res_height r),
                     code := res_code r\<rparr>)"
        using False idx0 by (simp add: t4ka3_try_mbus_fmt_def Let_def idx_def r_def)
      have f: "fits r (width fmt) (height fmt)"
      proof (cases "idx0 = - 1")
        case True
        then show ?thesis using small res_last by (simp add: fits_def r_def idx_def)
      next
        case False
        with sel show ?thesis by (simp add: r_def idx_def)
      qed
      have rin: "r \<in> set t4ka3_res"
      proof (cases "idx0 = - 1")
        case True
        then show ?thesis using last_in by (simp add: r_def idx_def)
      next
        case False
        with sel show ?thesis by (simp add: r_def idx_def)
      qed
      then have "shiftable r" using res_shiftable by (simp add: list_all_iff)
      then have b: "res_width r < 2 ^ 19" "res_height r < 2 ^ 19" by (simp_all add: shiftable_def)
      have ge: "width fmt \<le> word_of_int (res_width r)" "height fmt \<le> word_of_int (res_height r)"
        using f b word_le_of_fits by (simp_all add: fits_def)
      have some: "\<exists>r \<in> set t4ka3_res. fits r (width fmt) (height fmt)"
        using rin f by blast
      have cat: "\<exists>r' \<in> set t4ka3_res.
          fmt\<lparr>width := word_of_int (res_width r), height := word_of_int (res_height r),
              code := res_code r\<rparr>
          = fmt\<lparr>width := word_of_int (res_width r'),
                height := word_of_int (res_height r'), code := res_code r'\<rparr>"
        using rin by blast
      show ?thesis
        unfolding run using nz ge some cat by simp
    qed
  qed
  from zero allfit main res_bounded show ?thesis by blast
qed

theorem try_mbus_fmt_zero_width_witness:
  "t4ka3_try_mbus_fmt (request 1920 1080)
     = Some \<lparr>width = 1936, height = 1096, code = MEDIA_BUS_FMT_SGRBG10_1X10\<rparr>
   \<and> width (request 1920 1080) \<le> 1936 \<and> height (request 1920 1080) \<le> 1096
   \<and> t4ka3_try_mbus_fmt (request 800 400)
     = Some \<lparr>width = 3280, height = 2464, code = MEDIA_BUS_FMT_SGRBG10_1X10\<rparr>
   \<and> t4ka3_try_mbus_fmt (request 4000 100)
     = Some \<lparr>width = 3280, height = 2464, code = MEDIA_BUS_FMT_SGRBG10_1X10\<rparr>
   \<and> \<not> (\<exists>r \<in> set t4ka3_res. fits r (width (request 4000 100)) (height (request 4000 100)))
   \<and> t4ka3_try_mbus_fmt (request 0 2464) = None
   \<and> width (request 0 2464) = 0 \<and> height (request 0 2464) \<le> T4KA3_RES_HEIGHT_MAX"
proof -
  have e1: "t4ka3_try_mbus_fmt (request 1920 1080)
     = Some \<lparr>width = 1936, height = 1096, code = MEDIA_BUS_FMT_SGRBG10_1X10\<rparr>"
    by code_simp
  have e2: "t4ka3_try_mbus_fmt (request 800 400)
     = Some \<lparr>width = 3280, height = 2464, code = MEDIA_BUS_FMT_SGRBG10_1X10\<rparr>"
    by code_simp
  have e3: "t4ka3_try_mbus_fmt (request 4000 100)
     = Some \<lparr>width = 3280, height = 2464, code = MEDIA_BUS_FMT_SGRBG10_1X10\<rparr>"
    by code_simp
  have z: "width (request 0 2464) = 0 \<and> height (request 0 2464) \<le> T4KA3_RES_HEIGHT_MAX"
    by (simp add: request_def T4KA3_RES_HEIGHT_MAX_def)
  have big: "\<not> width (request 4000 100) \<le> 3280"
    by (simp add: request_def)
  have nofit: "\<not> (\<exists>r \<in> set t4ka3_res.
      fits r (width (request 4000 100)) (height (request 4000 100)))"
    using try_mbus_fmt_zero_width[of "request 4000 100"] big unfolding e3
    by (simp split: if_splits)
  have ok: "width (request 1920 1080) \<le> 1936 \<and> height (request 1920 1080) \<le> 1096"
    by (simp add: request_def)
  from try_mbus_fmt_zero_width[of "request 0 2464"] z
  have n: "t4ka3_try_mbus_fmt (request 0 2464) = None" by blast
  from e1 e2 e3 nofit n z ok show ?thesis by blast
qed

end
